theory Spec2Isabelle
  imports Main "HOL-Library.Word" "HOL-Library.Multiset" "HOL-Library.Sublist"
begin

section \<open>Data model of the shader compiler driver\<close>

text \<open>
  The development embeds \<^verbatim>\<open>src/nicegraf_shaderc.cpp\<close>: \<^verbatim>\<open>create_cross_compiler\<close> and
  \<^verbatim>\<open>main\<close>. The headers included by that file (\<^verbatim>\<open>target.h\<close>, \<^verbatim>\<open>technique_parser.h\<close>,
  \<^verbatim>\<open>pipeline_layout.h\<close>, \<^verbatim>\<open>separate_to_combined_map.h\<close>, \<^verbatim>\<open>pipeline_metadata_file.h\<close>,
  \<^verbatim>\<open>header_file_writer.h\<close>, \<^verbatim>\<open>file_utils.h\<close>, \<^verbatim>\<open>shader_defines.h\<close>) and the two libraries
  (shaderc, SPIRV-Cross) are collaborators of \<^verbatim>\<open>main\<close>: what they compute is a parameter of
  the model (the record \<open>env\<close> below), the calls \<^verbatim>\<open>main\<close> makes on them are part of it.
\<close>

subsection \<open>Targets (\<^verbatim>\<open>target.h\<close>, as used by \<^verbatim>\<open>main\<close>)\<close>

datatype target_api = GL | VULKAN | METAL

datatype target_platform_class = DESKTOP | MOBILE

record target_info =
  api :: target_api
  platform :: target_platform_class
  version_maj :: nat
  version_min :: nat
  file_ext :: string

subsection \<open>Techniques (\<^verbatim>\<open>technique_parser.h\<close>, as used by \<^verbatim>\<open>main\<close>)\<close>

text \<open>
  \<^verbatim>\<open>main\<close> distinguishes \<^verbatim>\<open>shaderc_vertex_shader\<close> from every other kind; the parser
  produces vertex and fragment entry points only.
\<close>

datatype shaderc_shader_kind = shaderc_vertex_shader | shaderc_fragment_shader

record entry_point =
  ep_kind :: shaderc_shader_kind
  ep_name :: string

record technique =
  tech_name :: string
  tech_defines :: "(string \<times> string) list"
  entry_points :: "entry_point list"
  additional_metadata :: "(string \<times> string) list"

subsection \<open>Front end (shaderc)\<close>

record compile_options =
  macro_definitions :: "(string \<times> string) list"
  auto_bind_uniforms :: bool
  auto_map_locations :: bool
  source_language_hlsl :: bool
  has_includer :: bool
  warnings_as_errors :: bool

text \<open>
  A \<^verbatim>\<open>shaderc::SpvCompilationResult\<close>: whether the status is
  \<^verbatim>\<open>shaderc_compilation_status_success\<close>, the error message, and the 32-bit words between
  \<^verbatim>\<open>cbegin()\<close> and \<^verbatim>\<open>cend()\<close>.
\<close>

record spv_compilation_result =
  compilation_success :: bool
  error_message :: string
  spv_words :: "32 word list"

subsection \<open>Back end (SPIRV-Cross)\<close>

record resource =
  res_id :: nat
  res_name :: string

record shader_resources =
  uniform_buffers :: "resource list"
  storage_buffers :: "resource list"
  separate_samplers :: "resource list"
  separate_images :: "resource list"

record combined_image_sampler =
  combined_id :: nat
  image_id :: nat
  sampler_id :: nat

datatype decoration = DecorationBinding | DecorationDescriptorSet

text \<open>
  The three SPIRV-Cross compilers that \<^verbatim>\<open>create_cross_compiler\<close> instantiates, with the
  options it sets: for GLSL the version, \<^verbatim>\<open>separate_shader_objects\<close> and \<^verbatim>\<open>es\<close>; for MSL the
  version pair and whether the platform is iOS.
\<close>

datatype cross_compiler_kind =
  CompilerGLSL nat bool bool
| CompilerReflection
| CompilerMSL nat nat bool

text \<open>
  A compiler instance. Names and decorations are the tables that \<^verbatim>\<open>set_name\<close>,
  \<^verbatim>\<open>get_name\<close> and \<^verbatim>\<open>set_decoration\<close> write and read; the resource lists and the
  combined image samplers are what \<^verbatim>\<open>get_shader_resources\<close> and
  \<^verbatim>\<open>get_combined_image_samplers\<close> return for the module.
\<close>

record compiler =
  kind :: cross_compiler_kind
  spirv :: "32 word list"
  names :: "nat \<Rightarrow> string"
  decorations :: "nat \<times> decoration \<Rightarrow> nat option"
  shader_resources_of :: shader_resources
  combined_image_samplers :: "combined_image_sampler list"

definition get_name :: "compiler \<Rightarrow> nat \<Rightarrow> string" where
  "get_name c i = names c i"

definition set_name :: "compiler \<Rightarrow> nat \<Rightarrow> string \<Rightarrow> compiler" where
  "set_name c i s = c\<lparr>names := (names c)(i := s)\<rparr>"

definition set_decoration :: "compiler \<Rightarrow> nat \<Rightarrow> decoration \<Rightarrow> nat \<Rightarrow> compiler" where
  "set_decoration c i d v = c\<lparr>decorations := (decorations c)((i, d) \<mapsto> v)\<rparr>"

subsection \<open>Pipeline layout (\<^verbatim>\<open>pipeline_layout.h\<close>, as used by \<^verbatim>\<open>main\<close>)\<close>

datatype descriptor_type = UNIFORM_BUFFER | STORAGE_BUFFER | SAMPLER | TEXTURE

datatype stage_mask_bit = STAGE_MASK_VERTEX | STAGE_MASK_FRAGMENT

record descriptor =
  slot :: nat
  dtype :: descriptor_type
  stage_mask :: nat

subsection \<open>What a run does: console, files, and calls on the collaborators\<close>

text \<open>
  The events of a run, in the order in which they happen: \<^verbatim>\<open>printf\<close>; \<^verbatim>\<open>fprintf(stderr, ...)\<close>;
  the construction of the \<^verbatim>\<open>header_file_writer\<close> from the output folder, the header path
  and the namespace; the calls \<^verbatim>\<open>set_name\<close> and \<^verbatim>\<open>set_decoration\<close> on the SPIRV-Cross
  compiler of an entry point; a call of \<^verbatim>\<open>res_layout.process_resources\<close> with its resource
  list, descriptor type, stage bit and \<^verbatim>\<open>do_remapping\<close>; an \<^verbatim>\<open>fopen\<close> that returned a file,
  the \<^verbatim>\<open>fwrite\<close> of a text or of 32-bit words to that file and its \<^verbatim>\<open>fclose\<close> (the
  \<^verbatim>\<open>FILE *\<close> is identified by the path it was opened with); the calls \<^verbatim>\<open>begin_technique\<close>,
  \<^verbatim>\<open>write_descriptor\<close> and \<^verbatim>\<open>end_technique\<close> on the header writer; the construction of a
  \<^verbatim>\<open>pipeline_metadata_file\<close> for a path and the calls \<^verbatim>\<open>start_new_record\<close>, \<^verbatim>\<open>write_field\<close>
  (of a number, or of a descriptor type cast to a number), \<^verbatim>\<open>write_raw_bytes\<close> and
  \<^verbatim>\<open>finalize\<close> on it.
\<close>

datatype payload = Text string | Words "32 word list"

datatype event =
  Printf string
| Eprintf string
| Header_file_writer string string string
| Set_name nat string
| Set_decoration nat decoration nat
| Process_resources "resource list" descriptor_type stage_mask_bit bool
| Fopen string
| Fwrite string payload
| Fclose string
| Begin_technique string
| Write_descriptor descriptor nat
| End_technique
| Pipeline_metadata_file string
| Start_new_record
| Write_field nat
| Write_type_field descriptor_type
| Write_raw_bytes string
| Finalize

text \<open>
  A step of \<^verbatim>\<open>main\<close> yields the events it caused and either \<open>Inl code\<close>, when it called
  \<^verbatim>\<open>exit(code)\<close>, or \<open>Inr\<close> of its result.
\<close>

type_synonym 'a io = "event list \<times> (nat + 'a)"

definition io_bind :: "'a io \<Rightarrow> ('a \<Rightarrow> 'b io) \<Rightarrow> 'b io" where
  "io_bind m f =
     (case m of
        (es, Inl code) \<Rightarrow> (es, Inl code)
      | (es, Inr a) \<Rightarrow> (case f a of (es', r) \<Rightarrow> (es @ es', r)))"

subsection \<open>The collaborators\<close>

text \<open>
  \<open>'l\<close> is the type of a \<^verbatim>\<open>pipeline_layout\<close>, \<open>'m\<close> of a \<^verbatim>\<open>separate_to_combined_map\<close>.
  \<open>api_value\<close> gives the values of the enumerators of \<^verbatim>\<open>enum class target_api\<close>, which is
  declared in \<^verbatim>\<open>target.h\<close>: they are what the comparison \<^verbatim>\<open>t1->api < t2->api\<close> compares.
  \<open>std_sort\<close> is \<^verbatim>\<open>std::sort\<close> on a vector of targets, given the comparison: the standard
  promises a permutation of the vector in which no element precedes one that is less, and
  leaves the order of equivalent elements open, so the statements that need that promise
  assume it and no statement fixes the order of equivalent targets.
  \<open>header_is_open\<close> and \<open>header_writer_path\<close> answer for the \<^verbatim>\<open>header_file_writer\<close>
  constructed from the output folder and the header path; \<open>fopen_succeeds\<close> tells whether
  \<^verbatim>\<open>fopen(path, "wb")\<close> returns a file. The four functions named \<open>spirv_cross_names\<close> to
  \<open>get_combined_image_samplers\<close> give what a SPIRV-Cross compiler of a kind holds for a
  module when \<^verbatim>\<open>create_cross_compiler\<close> returns it, \<open>compile\<close> the text that \<^verbatim>\<open>compile()\<close>
  returns for an instance. \<open>process_resources\<close> returns the layout and the compiler as the
  call leaves them; \<open>layout_set\<close> lists the descriptors of a set in the order of
  iteration; \<open>serialize\<close> gives the fields that a map writes to the metadata file. The
  functions are total: the model describes the runs in which every collaborator returns to
  \<^verbatim>\<open>main\<close>.
\<close>

record ('l, 'm) env =
  TARGET_MAP :: "(string \<times> target_info) list"
  PATH_SEPARATOR :: string
  AUTOGEN_CIS_DESCRIPTOR_SET :: nat
  api_value :: "target_api \<Rightarrow> int"
  std_sort :: "(target_info \<Rightarrow> target_info \<Rightarrow> bool) \<Rightarrow> target_info list \<Rightarrow> target_info list"
  read_file :: "string \<Rightarrow> string"
  parse_techniques :: "string \<Rightarrow> technique list"
  CompileGlslToSpv ::
    "string \<Rightarrow> shaderc_shader_kind \<Rightarrow> string \<Rightarrow> string \<Rightarrow> compile_options
       \<Rightarrow> spv_compilation_result"
  header_is_open :: "string \<Rightarrow> string \<Rightarrow> bool"
  header_writer_path :: "string \<Rightarrow> string \<Rightarrow> string"
  fopen_succeeds :: "string \<Rightarrow> bool"
  spirv_cross_names :: "cross_compiler_kind \<Rightarrow> 32 word list \<Rightarrow> nat \<Rightarrow> string"
  spirv_cross_decorations ::
    "cross_compiler_kind \<Rightarrow> 32 word list \<Rightarrow> nat \<times> decoration \<Rightarrow> nat option"
  get_shader_resources :: "cross_compiler_kind \<Rightarrow> 32 word list \<Rightarrow> shader_resources"
  get_combined_image_samplers ::
    "cross_compiler_kind \<Rightarrow> 32 word list \<Rightarrow> combined_image_sampler list"
  compile :: "compiler \<Rightarrow> string"
  new_pipeline_layout :: 'l
  process_resources ::
    "resource list \<Rightarrow> descriptor_type \<Rightarrow> stage_mask_bit \<Rightarrow> bool \<Rightarrow> compiler \<Rightarrow> 'l
       \<Rightarrow> 'l \<times> compiler"
  set_count :: "'l \<Rightarrow> nat"
  layout_set :: "'l \<Rightarrow> nat \<Rightarrow> descriptor list"
  new_separate_to_combined_map :: 'm
  add_resource :: "nat \<Rightarrow> nat \<Rightarrow> compiler \<Rightarrow> 'm \<Rightarrow> 'm"
  serialize :: "'m \<Rightarrow> nat list"

section \<open>The program\<close>

definition newline :: string where
  "newline = [CHR 0x0A]"

definition dquote :: string where
  "dquote = [CHR 0x22]"

definition USAGE_lines :: "string list" where
  "USAGE_lines =
    ['''',
     ''Usage: ngf_shaderc <input file name> [options]'',
     '''',
     ''Compiles HLSL shaders for multiple different targets.'',
     '''',
     ''Options:'',
     '''',
     ''  -O <path> - Folder to store output files in. Default is the current working'',
     ''    directory.'',
     ''  '',
     ''  -t <target> - Generate shaders for the given target.  Accepted values are:'',
     ''      * gl430;'',
     ''      * gles310, gles300;'',
     ''      * msl10, msl11, msl12, msl20;'',
     ''      * msl10ios, msl11ios, msl12ios, msl20ios;'',
     ''      * spv '',
     ''    If the option is encountered multiple times, shaders for all of the'',
     ''    mentioned targets will be generated.'',
     '''',
     ''  -h <path> - Path (relative to the output folder) for the generated'',
     ''      header file with descriptor binding and set IDs. If not specified, no'',
     ''      header file will be generated.'',
     '''',
     ''  -n <identifier> - Namespace for the generated shader file. If not specified,'',
     ''     global namespace is used.'']"

text \<open>The raw string literal \<^verbatim>\<open>USAGE\<close>: every line above, each ended by a newline.\<close>

definition USAGE :: string where
  "USAGE = concat (map (\<lambda>l. l @ newline) USAGE_lines)"

subsection \<open>\<^verbatim>\<open>create_cross_compiler\<close>\<close>

text \<open>
  \<^verbatim>\<open>opts.version = ti.version_maj * 100u + ti.version_min * 10u\<close> is unsigned 32-bit
  arithmetic. For the GLSL compiler the function also calls
  \<^verbatim>\<open>build_dummy_sampler_for_combined_images\<close> and \<^verbatim>\<open>build_combined_image_samplers\<close>; what
  the instance then reports is the collaborator's answer for the kind and the module.
\<close>

definition cross_compiler_kind_of :: "target_info \<Rightarrow> cross_compiler_kind" where
  "cross_compiler_kind_of ti =
     (case api ti of
        GL \<Rightarrow> CompilerGLSL ((version_maj ti * 100 + version_min ti * 10) mod 2 ^ 32) True
                (platform ti = MOBILE)
      | VULKAN \<Rightarrow> CompilerReflection
      | METAL \<Rightarrow> CompilerMSL (version_maj ti) (version_min ti) (platform ti = MOBILE))"

definition create_cross_compiler ::
  "('l, 'm) env \<Rightarrow> 32 word list \<Rightarrow> target_info \<Rightarrow> compiler" where
  "create_cross_compiler env spv_data ti =
     (let k = cross_compiler_kind_of ti in
      \<lparr>kind = k, spirv = spv_data,
       names = spirv_cross_names env k spv_data,
       decorations = spirv_cross_decorations env k spv_data,
       shader_resources_of = get_shader_resources env k spv_data,
       combined_image_samplers = get_combined_image_samplers env k spv_data\<rparr>)"

subsection \<open>\<^verbatim>\<open>main\<close>: the command line\<close>

record options =
  out_folder :: string
  header_path :: string
  header_namespace :: string
  targets :: "target_info list"

definition default_options :: options where
  "default_options =
     \<lparr>out_folder = ''.'', header_path = '''', header_namespace = '''', targets = []\<rparr>"

text \<open>
  The loop \<^verbatim>\<open>for (o = 2; o < argc; o += 2)\<close> over \<^verbatim>\<open>argv\<close>, as a recursion over the
  arguments from index 2 on: \<^verbatim>\<open>argv[o]\<close> is the head, \<^verbatim>\<open>o + 1 >= argc\<close> holds when nothing
  follows it. \<^verbatim>\<open>std::find_if\<close> returns the first entry of \<^verbatim>\<open>TARGET_MAP\<close> with the name.
\<close>

fun process_options ::
  "(string \<times> target_info) list \<Rightarrow> string list \<Rightarrow> options \<Rightarrow> options io" where
  "process_options tm [] opts = ([], Inr opts)"
| "process_options tm [option_name] opts =
     ([Eprintf (''Expected an option value after '' @ option_name @ newline)], Inl 1)"
| "process_options tm (option_name # option_value # rest) opts =
     (if ''-t'' = option_name then
        (case find (\<lambda>x. option_value = fst x) tm of
           None \<Rightarrow>
             ([Eprintf (''Unknown target '' @ dquote @ option_value @ dquote @ newline)], Inl 1)
         | Some t \<Rightarrow> process_options tm rest (opts\<lparr>targets := targets opts @ [snd t]\<rparr>))
      else if ''-O'' = option_name then
        process_options tm rest (opts\<lparr>out_folder := option_value\<rparr>)
      else if ''-h'' = option_name then
        process_options tm rest (opts\<lparr>header_path := option_value\<rparr>)
      else if ''-n'' = option_name then
        process_options tm rest (opts\<lparr>header_namespace := option_value\<rparr>)
      else
        ([Eprintf (''Unknown option: '' @ dquote @ option_name @ dquote @ newline)], Inl 1))"

subsection \<open>\<^verbatim>\<open>main\<close>: obtaining SPIR-V\<close>

text \<open>
  The options of one front-end compilation. \<^verbatim>\<open>add_defines_from_container\<close> is declared in
  \<^verbatim>\<open>shader_defines.h\<close>; following the spec, it adds the technique's defines as macro
  definitions, before \<^verbatim>\<open>main\<close> adds \<^verbatim>\<open>force_column_major\<close>.
\<close>

definition shaderc_opts :: "technique \<Rightarrow> compile_options" where
  "shaderc_opts tech =
     \<lparr>macro_definitions = tech_defines tech @ [(''force_column_major'', ''row_major'')],
      auto_bind_uniforms = True, auto_map_locations = True, source_language_hlsl = True,
      has_includer = True, warnings_as_errors = True\<rparr>"

definition compile_entry_point ::
  "('l, 'm) env \<Rightarrow> string \<Rightarrow> string \<Rightarrow> technique \<Rightarrow> entry_point \<Rightarrow> spv_compilation_result"
  where
  "compile_entry_point env input_source input_file_path tech ep =
     CompileGlslToSpv env input_source (ep_kind ep) input_file_path (ep_name ep)
       (shaderc_opts tech)"

text \<open>
  The two nested loops that fill \<^verbatim>\<open>spv_results\<close>: each result is appended
  (\<^verbatim>\<open>emplace_back\<close>), then its status is checked.
\<close>

fun compile_entry_points ::
  "('l, 'm) env \<Rightarrow> string \<Rightarrow> string \<Rightarrow> technique \<Rightarrow> entry_point list
     \<Rightarrow> spv_compilation_result list \<Rightarrow> spv_compilation_result list io" where
  "compile_entry_points env input_source input_file_path tech [] spv_results =
     ([], Inr spv_results)"
| "compile_entry_points env input_source input_file_path tech (ep # eps) spv_results =
     (let spv_results' =
            spv_results @ [compile_entry_point env input_source input_file_path tech ep]
      in if \<not> compilation_success (last spv_results')
         then ([Eprintf (error_message (last spv_results'))], Inl 1)
         else compile_entry_points env input_source input_file_path tech eps spv_results')"

fun compile_techniques ::
  "('l, 'm) env \<Rightarrow> string \<Rightarrow> string \<Rightarrow> technique list
     \<Rightarrow> spv_compilation_result list \<Rightarrow> spv_compilation_result list io" where
  "compile_techniques env input_source input_file_path [] spv_results =
     ([], Inr spv_results)"
| "compile_techniques env input_source input_file_path (tech # techs) spv_results =
     io_bind
       (compile_entry_points env input_source input_file_path tech (entry_points tech)
          spv_results)
       (compile_techniques env input_source input_file_path techs)"

subsection \<open>\<^verbatim>\<open>main\<close>: one entry point for one target\<close>

text \<open>
  The loop over \<^verbatim>\<open>cis\<close> with the index \<^verbatim>\<open>cis_idx\<close>, which \<^verbatim>\<open>main\<close> starts at 0 for the
  compiler of each entry point: the three calls on the compiler for each tuple, and the
  compiler as they leave it. The new name is computed from the names the compiler holds
  at that iteration. (\<^verbatim>\<open>cis_idx\<close> is a \<^verbatim>\<open>uint32_t\<close>; a module has far fewer than \<open>2^32\<close>
  combined samplers, so the index never wraps.)
\<close>

fun bind_combined_image_samplers ::
  "nat \<Rightarrow> combined_image_sampler list \<Rightarrow> nat \<Rightarrow> compiler \<Rightarrow> event list \<times> compiler" where
  "bind_combined_image_samplers cis_set [] cis_idx c = ([], c)"
| "bind_combined_image_samplers cis_set (remap # rest) cis_idx c =
     (let new_name = get_name c (image_id remap) @ ''_'' @ get_name c (sampler_id remap);
          c' = set_decoration
                 (set_decoration
                    (set_name c (combined_id remap) new_name)
                    (combined_id remap) DecorationBinding cis_idx)
                 (combined_id remap) DecorationDescriptorSet cis_set
      in case bind_combined_image_samplers cis_set rest (Suc cis_idx) c' of
           (es, c'') \<Rightarrow>
             ([Set_name (combined_id remap) new_name,
               Set_decoration (combined_id remap) DecorationBinding cis_idx,
               Set_decoration (combined_id remap) DecorationDescriptorSet cis_set] @ es,
              c''))"

text \<open>The loop that records every combined sampler in the two maps.\<close>

fun add_resources ::
  "('l, 'm) env \<Rightarrow> combined_image_sampler list \<Rightarrow> compiler \<Rightarrow> 'm \<times> 'm \<Rightarrow> 'm \<times> 'm" where
  "add_resources env [] c maps = maps"
| "add_resources env (cis # rest) c (images_to_cis, samplers_to_cis) =
     add_resources env rest c
       (add_resource env (image_id cis) (combined_id cis) c images_to_cis,
        add_resource env (sampler_id cis) (combined_id cis) c samplers_to_cis)"

text \<open>
  The lambda \<^verbatim>\<open>process_resources\<close> of \<^verbatim>\<open>main\<close>: one call on the layout, which may also
  rebind the resource in the compiler.
\<close>

definition process_resources_call ::
  "('l, 'm) env \<Rightarrow> stage_mask_bit \<Rightarrow> bool \<Rightarrow> resource list \<Rightarrow> descriptor_type
     \<Rightarrow> event list \<times> 'l \<times> compiler \<Rightarrow> event list \<times> 'l \<times> compiler" where
  "process_resources_call env smb do_remapping rs dt st =
     (case st of (es, res_layout, c) \<Rightarrow>
        (case process_resources env rs dt smb do_remapping c res_layout of
           (res_layout', c') \<Rightarrow>
             (es @ [Process_resources rs dt smb do_remapping], res_layout', c')))"

text \<open>The body of \<^verbatim>\<open>if (do_remapping || generate_pipeline_metadata)\<close>.\<close>

definition feed_layout ::
  "('l, 'm) env \<Rightarrow> entry_point \<Rightarrow> bool \<Rightarrow> shader_resources \<Rightarrow> compiler \<Rightarrow> 'l \<times> 'm \<times> 'm
     \<Rightarrow> event list \<times> ('l \<times> 'm \<times> 'm) \<times> compiler" where
  "feed_layout env ep do_remapping resources c st =
     (case st of (res_layout, images_to_cis, samplers_to_cis) \<Rightarrow>
        (let maps = add_resources env (combined_image_samplers c) c
                      (images_to_cis, samplers_to_cis);
             smb = (if ep_kind ep = shaderc_vertex_shader
                    then STAGE_MASK_VERTEX else STAGE_MASK_FRAGMENT)
         in case process_resources_call env smb do_remapping
                   (separate_images resources) TEXTURE
                (process_resources_call env smb do_remapping
                   (separate_samplers resources) SAMPLER
                (process_resources_call env smb do_remapping
                   (storage_buffers resources) STORAGE_BUFFER
                (process_resources_call env smb do_remapping
                   (uniform_buffers resources) UNIFORM_BUFFER
                   ([], res_layout, c)))) of
              (es, res_layout', c') \<Rightarrow> (es, (res_layout', fst maps, snd maps), c')))"

definition out_file_path_of :: "('l, 'm) env \<Rightarrow> options \<Rightarrow> technique \<Rightarrow> entry_point \<Rightarrow> target_info \<Rightarrow> string" where
  "out_file_path_of env opts tech ep ti =
     out_folder opts @ PATH_SEPARATOR env @ tech_name tech
       @ (if ep_kind ep = shaderc_vertex_shader then ''.vs.'' else ''.ps.'')
       @ file_ext ti"

text \<open>
  The body of the loop over the entry points of a technique, for the result
  \<^verbatim>\<open>spv_results[spv_idx++]\<close>: reflect, rename and bind the combined samplers, feed the
  layout, then write the translated shader.
\<close>

definition translate_entry_point ::
  "('l, 'm) env \<Rightarrow> options \<Rightarrow> bool \<Rightarrow> target_info \<Rightarrow> technique \<Rightarrow> entry_point
     \<Rightarrow> spv_compilation_result \<Rightarrow> 'l \<times> 'm \<times> 'm \<Rightarrow> ('l \<times> 'm \<times> 'm) io" where
  "translate_entry_point env opts generate_pipeline_metadata ti tech ep spv_result st =
     (let out_file_path = out_file_path_of env opts tech ep ti;
          compiler0 = create_cross_compiler env (spv_words spv_result) ti;
          resources = shader_resources_of compiler0;
          cis = combined_image_samplers compiler0;
          do_remapping = (api ti = GL \<or> api ti = METAL)
      in case bind_combined_image_samplers (AUTOGEN_CIS_DESCRIPTOR_SET env) cis 0 compiler0 of
           (es0, compiler1) \<Rightarrow>
             (case (if do_remapping \<or> generate_pipeline_metadata
                    then feed_layout env ep do_remapping resources compiler1 st
                    else ([], st, compiler1)) of
                (es, st', compiler2) \<Rightarrow>
                  if \<not> fopen_succeeds env out_file_path
                  then (es0 @ es
                          @ [Eprintf (''Failed to open output file '' @ out_file_path
                                        @ newline)],
                        Inl 1)
                  else (es0 @ es
                          @ [Fopen out_file_path,
                             Fwrite out_file_path
                               (if api ti \<noteq> VULKAN then Text (compile env compiler2)
                                else Words (spv_words spv_result)),
                             Fclose out_file_path],
                        Inr st')))"

fun entry_points_loop ::
  "('l, 'm) env \<Rightarrow> options \<Rightarrow> bool \<Rightarrow> target_info \<Rightarrow> technique
     \<Rightarrow> spv_compilation_result list \<Rightarrow> entry_point list \<Rightarrow> nat \<times> 'l \<times> 'm \<times> 'm
     \<Rightarrow> (nat \<times> 'l \<times> 'm \<times> 'm) io" where
  "entry_points_loop env opts gpm ti tech spv_results [] s = ([], Inr s)"
| "entry_points_loop env opts gpm ti tech spv_results (ep # eps) (spv_idx, st) =
     io_bind
       (translate_entry_point env opts gpm ti tech ep (spv_results ! spv_idx) st)
       (\<lambda>st'. entry_points_loop env opts gpm ti tech spv_results eps (Suc spv_idx, st'))"

subsection \<open>\<^verbatim>\<open>main\<close>: the \<^verbatim>\<open>.pipeline\<close> file and the header block of a technique\<close>

text \<open>
  The casts \<^verbatim>\<open>(uint32_t)ds.size()\<close> and \<^verbatim>\<open>(uint32_t)tech.additional_metadata.size()\<close>
  truncate to 32 bits. \<^verbatim>\<open>write_raw_bytes(s.c_str(), s.size() + 1u)\<close> writes the string and
  its terminating zero.
\<close>

definition write_descriptor_set :: "('l, 'm) env \<Rightarrow> 'l \<Rightarrow> nat \<Rightarrow> event list" where
  "write_descriptor_set env res_layout set_idx =
     (let ds = layout_set env res_layout set_idx in
      Write_field (length ds mod 2 ^ 32)
        # concat (map (\<lambda>d. [Write_field (slot d), Write_type_field (dtype d),
                             Write_field (stage_mask d), Write_descriptor d set_idx]) ds))"

definition write_pipeline_metadata ::
  "('l, 'm) env \<Rightarrow> options \<Rightarrow> technique \<Rightarrow> 'l \<times> 'm \<times> 'm \<Rightarrow> event list" where
  "write_pipeline_metadata env opts tech st =
     (case st of (res_layout, images_to_cis, samplers_to_cis) \<Rightarrow>
        [Begin_technique (tech_name tech),
         Pipeline_metadata_file
           (out_folder opts @ PATH_SEPARATOR env @ tech_name tech @ ''.pipeline''),
         Start_new_record,
         Write_field (set_count env res_layout)]
        @ concat (map (write_descriptor_set env res_layout)
                    [0 ..< set_count env res_layout])
        @ [End_technique, Start_new_record]
        @ map Write_field (serialize env images_to_cis)
        @ [Start_new_record]
        @ map Write_field (serialize env samplers_to_cis)
        @ [Start_new_record,
           Write_field (length (additional_metadata tech) mod 2 ^ 32)]
        @ concat (map (\<lambda>nameval. [Write_raw_bytes (fst nameval @ [CHR 0x00]),
                                   Write_raw_bytes (snd nameval @ [CHR 0x00])])
                    (additional_metadata tech))
        @ [Finalize])"

subsection \<open>\<^verbatim>\<open>main\<close>: the output loops\<close>

fun techniques_loop ::
  "('l, 'm) env \<Rightarrow> options \<Rightarrow> bool \<Rightarrow> target_info \<Rightarrow> spv_compilation_result list
     \<Rightarrow> technique list \<Rightarrow> nat \<Rightarrow> nat io" where
  "techniques_loop env opts gpm ti spv_results [] spv_idx = ([], Inr spv_idx)"
| "techniques_loop env opts gpm ti spv_results (tech # techs) spv_idx =
     io_bind
       (entry_points_loop env opts gpm ti tech spv_results (entry_points tech)
          (spv_idx, new_pipeline_layout env, new_separate_to_combined_map env,
           new_separate_to_combined_map env))
       (\<lambda>s. case s of (spv_idx', st) \<Rightarrow>
          io_bind
            (if gpm then (write_pipeline_metadata env opts tech st, Inr ())
             else ([], Inr ()))
            (\<lambda>_. techniques_loop env opts gpm ti spv_results techs spv_idx'))"

text \<open>
  The loop over the targets; \<open>gpm\<close> is \<^verbatim>\<open>generate_pipeline_metadata\<close>, which \<^verbatim>\<open>main\<close>
  initialises to true and sets to false at the end of every iteration.
\<close>

fun targets_loop ::
  "('l, 'm) env \<Rightarrow> options \<Rightarrow> technique list \<Rightarrow> spv_compilation_result list \<Rightarrow> bool
     \<Rightarrow> target_info list \<Rightarrow> unit io" where
  "targets_loop env opts techniques spv_results gpm [] = ([], Inr ())"
| "targets_loop env opts techniques spv_results gpm (ti # tis) =
     io_bind
       (techniques_loop env opts gpm ti spv_results techniques 0)
       (\<lambda>_. targets_loop env opts techniques spv_results False tis)"

subsection \<open>\<^verbatim>\<open>main\<close>\<close>

text \<open>The call of \<^verbatim>\<open>std::sort\<close> with the comparison of the \<^verbatim>\<open>api\<close> fields.\<close>

definition sort_targets :: "('l, 'm) env \<Rightarrow> target_info list \<Rightarrow> target_info list" where
  "sort_targets env ts =
     std_sort env (\<lambda>t1 t2. api_value env (api t1) < api_value env (api t2)) ts"

definition no_targets_message :: string where
  "no_targets_message =
     ''No target shader flavors specified! Use -t to specify a target.'' @ newline"

definition no_techniques_message :: string where
  "no_techniques_message =
     ''Input file does not appear to define any techniques. ''
     @ ''Define techniques with a special comment ('' @ [CHR 0x60] @ ''//T:'' @ [CHR 0x27]
     @ '').'' @ newline"

text \<open>Everything \<^verbatim>\<open>main\<close> does once the options are read; the result is the exit code.\<close>

definition run :: "('l, 'm) env \<Rightarrow> string \<Rightarrow> options \<Rightarrow> event list \<times> nat" where
  "run env input_file_path opts =
     (if targets opts = [] then ([Eprintf no_targets_message], 1)
      else
        let sorted_targets = sort_targets env (targets opts);
            input_source = read_file env input_file_path @ newline;
            techniques = parse_techniques env input_source
        in if length techniques = 0 then ([Eprintf no_techniques_message], 1)
           else
             case io_bind
                    (compile_techniques env input_source input_file_path techniques [])
                    (\<lambda>spv_results.
                       io_bind
                         (if header_path opts \<noteq> []
                             \<and> \<not> header_is_open env (out_folder opts) (header_path opts)
                          then ([Header_file_writer (out_folder opts) (header_path opts)
                                   (header_namespace opts),
                                 Eprintf (''Failed to open output file ''
                                   @ header_writer_path env (out_folder opts) (header_path opts)
                                   @ newline)],
                                Inl 1)
                          else ([Header_file_writer (out_folder opts) (header_path opts)
                                   (header_namespace opts)],
                                Inr ()))
                         (\<lambda>_. targets_loop env opts techniques spv_results True
                                sorted_targets)) of
               (es, Inl code) \<Rightarrow> (es, code)
             | (es, Inr _) \<Rightarrow> (es, 0))"

text \<open>
  \<^verbatim>\<open>main\<close> on the argument vector \<open>argv\<close> (\<^verbatim>\<open>argc\<close> is its length): the events of the run
  and the exit code of the process.
\<close>

definition main :: "('l, 'm) env \<Rightarrow> string list \<Rightarrow> event list \<times> nat" where
  "main env argv =
     (if length argv \<le> 1 then ([Printf (USAGE @ newline)], 0)
      else
        case process_options (TARGET_MAP env) (drop 2 argv) default_options of
          (es, Inl code) \<Rightarrow> (es, code)
        | (es, Inr opts) \<Rightarrow>
            (case run env (argv ! 1) opts of (es', code) \<Rightarrow> (es @ es', code)))"

section \<open>An example environment\<close>

text \<open>
  A concrete set of collaborators, on which the theorems below are instantiated. The
  catalog has the target names of the usage text, and the enumerators of \<^verbatim>\<open>target_api\<close>
  have the values 0, 1 and 2. The sort is an insertion sort, which is what the usual
  implementations of \<^verbatim>\<open>std::sort\<close> run on a vector of at most sixteen elements.

  The parser of the example reads the lines of the text that a newline ends, and knows two
  directive lines: one gives the technique \<open>main\<close>, the other the technique \<open>lit\<close>, each
  with a vertex and a fragment entry point. The file \<^verbatim>\<open>in.hlsl\<close> is the first directive
  line without a final newline; \<^verbatim>\<open>two.hlsl\<close> is the first line, a newline, and the second
  line, again without a final newline; every other file is empty.

  The module of an entry point is one word: 1 and 2 for the technique \<open>main\<close>, 3 and 4 for
  \<open>lit\<close>. Under the GLSL compiler the modules 1, 2 and 4 have one combined image sampler
  and the module 3 has two. The back end prints, for every combined sampler of the
  instance, its name, \<open>@\<close>, and its binding. A layout is the list of its descriptors (one
  set), a separate-to-combined map the list of its pairs. The header \<^verbatim>\<open>locked.h\<close> and the
  file \<^verbatim>\<open>./main.vs.300es.glsl\<close> cannot be opened.
\<close>

definition example_target_map :: "(string \<times> target_info) list" where
  "example_target_map =
     [(''gl430'', \<lparr>api = GL, platform = DESKTOP, version_maj = 4, version_min = 3,
                   file_ext = ''430.glsl''\<rparr>),
      (''gles310'', \<lparr>api = GL, platform = MOBILE, version_maj = 3, version_min = 1,
                     file_ext = ''310es.glsl''\<rparr>),
      (''gles300'', \<lparr>api = GL, platform = MOBILE, version_maj = 3, version_min = 0,
                     file_ext = ''300es.glsl''\<rparr>),
      (''msl10'', \<lparr>api = METAL, platform = DESKTOP, version_maj = 1, version_min = 0,
                   file_ext = ''10.msl''\<rparr>),
      (''msl11'', \<lparr>api = METAL, platform = DESKTOP, version_maj = 1, version_min = 1,
                   file_ext = ''11.msl''\<rparr>),
      (''msl12'', \<lparr>api = METAL, platform = DESKTOP, version_maj = 1, version_min = 2,
                   file_ext = ''12.msl''\<rparr>),
      (''msl20'', \<lparr>api = METAL, platform = DESKTOP, version_maj = 2, version_min = 0,
                   file_ext = ''20.msl''\<rparr>),
      (''msl10ios'', \<lparr>api = METAL, platform = MOBILE, version_maj = 1, version_min = 0,
                      file_ext = ''10ios.msl''\<rparr>),
      (''msl11ios'', \<lparr>api = METAL, platform = MOBILE, version_maj = 1, version_min = 1,
                      file_ext = ''11ios.msl''\<rparr>),
      (''msl12ios'', \<lparr>api = METAL, platform = MOBILE, version_maj = 1, version_min = 2,
                      file_ext = ''12ios.msl''\<rparr>),
      (''msl20ios'', \<lparr>api = METAL, platform = MOBILE, version_maj = 2, version_min = 0,
                      file_ext = ''20ios.msl''\<rparr>),
      (''spv'', \<lparr>api = VULKAN, platform = DESKTOP, version_maj = 0, version_min = 0,
                 file_ext = ''spv''\<rparr>)]"

fun insert_sorted :: "('a \<Rightarrow> 'a \<Rightarrow> bool) \<Rightarrow> 'a \<Rightarrow> 'a list \<Rightarrow> 'a list" where
  "insert_sorted before x [] = [x]"
| "insert_sorted before x (y # ys) =
     (if before x y then x # y # ys else y # insert_sorted before x ys)"

definition insertion_sort :: "('a \<Rightarrow> 'a \<Rightarrow> bool) \<Rightarrow> 'a list \<Rightarrow> 'a list" where
  "insertion_sort before xs = foldl (\<lambda>acc x. insert_sorted before x acc) [] xs"

definition example_technique :: technique where
  "example_technique =
     \<lparr>tech_name = ''main'', tech_defines = [],
      entry_points = [\<lparr>ep_kind = shaderc_vertex_shader, ep_name = ''VSMain''\<rparr>,
                      \<lparr>ep_kind = shaderc_fragment_shader, ep_name = ''PSMain''\<rparr>],
      additional_metadata = [(''author'', ''x'')]\<rparr>"

definition lit_technique :: technique where
  "lit_technique =
     \<lparr>tech_name = ''lit'', tech_defines = [],
      entry_points = [\<lparr>ep_kind = shaderc_vertex_shader, ep_name = ''VSLit''\<rparr>,
                      \<lparr>ep_kind = shaderc_fragment_shader, ep_name = ''PSLit''\<rparr>],
      additional_metadata = []\<rparr>"

definition example_source :: string where
  "example_source = ''//T: main vs:VSMain ps:PSMain''"

definition lit_source :: string where
  "lit_source = ''//T: lit vs:VSLit ps:PSLit''"

text \<open>
  The lines of a text that a newline ends, without the newline; what follows the last
  newline is not such a line.
\<close>

fun terminated_lines_from :: "string \<Rightarrow> string \<Rightarrow> string list" where
  "terminated_lines_from line [] = []"
| "terminated_lines_from line (c # cs) =
     (if c = CHR 0x0A then rev line # terminated_lines_from [] cs
      else terminated_lines_from (c # line) cs)"

definition terminated_lines :: "string \<Rightarrow> string list" where
  "terminated_lines text = terminated_lines_from [] text"

definition example_parser :: "string \<Rightarrow> technique list" where
  "example_parser text =
     concat (map (\<lambda>line. if line = example_source then [example_technique]
                          else if line = lit_source then [lit_technique]
                          else [])
               (terminated_lines text))"

definition example_names :: "nat \<Rightarrow> string" where
  "example_names i =
     (if i = 10 then ''albedo'' else if i = 11 then ''linear_smp''
      else if i = 20 then ''heightmap'' else if i = 21 then ''point_smp''
      else if i = 30 then ''normals'' else if i = 31 then ''shadows''
      else if i = 32 then ''clamp_smp''
      else if i = 40 then ''env'' else if i = 41 then ''env_smp'' else [])"

definition example_compile :: "compiler \<Rightarrow> string" where
  "example_compile c =
     concat (map (\<lambda>x. names c (combined_id x) @ ''@''
                       @ (case decorations c (combined_id x, DecorationBinding) of
                            None \<Rightarrow> ''?''
                          | Some b \<Rightarrow> [''0123456789'' ! b])
                       @ '';'')
               (combined_image_samplers c))"

definition example_resources :: "32 word list \<Rightarrow> shader_resources" where
  "example_resources w =
     (if w = [1]
      then \<lparr>uniform_buffers = [\<lparr>res_id = 5, res_name = ''globals''\<rparr>],
            storage_buffers = [],
            separate_samplers = [\<lparr>res_id = 21, res_name = ''point_smp''\<rparr>],
            separate_images = [\<lparr>res_id = 20, res_name = ''heightmap''\<rparr>]\<rparr>
      else if w = [2]
      then \<lparr>uniform_buffers = [\<lparr>res_id = 5, res_name = ''globals''\<rparr>],
            storage_buffers = [],
            separate_samplers = [\<lparr>res_id = 11, res_name = ''linear_smp''\<rparr>],
            separate_images = [\<lparr>res_id = 10, res_name = ''albedo''\<rparr>]\<rparr>
      else if w = [3]
      then \<lparr>uniform_buffers = [],
            storage_buffers = [],
            separate_samplers = [\<lparr>res_id = 32, res_name = ''clamp_smp''\<rparr>],
            separate_images = [\<lparr>res_id = 30, res_name = ''normals''\<rparr>,
                               \<lparr>res_id = 31, res_name = ''shadows''\<rparr>]\<rparr>
      else \<lparr>uniform_buffers = [],
            storage_buffers = [],
            separate_samplers = [\<lparr>res_id = 41, res_name = ''env_smp''\<rparr>],
            separate_images = [\<lparr>res_id = 40, res_name = ''env''\<rparr>]\<rparr>)"

definition example_combined :: "32 word list \<Rightarrow> combined_image_sampler list" where
  "example_combined w =
     (if w = [1] then [\<lparr>combined_id = 22, image_id = 20, sampler_id = 21\<rparr>]
      else if w = [2] then [\<lparr>combined_id = 12, image_id = 10, sampler_id = 11\<rparr>]
      else if w = [3] then [\<lparr>combined_id = 33, image_id = 30, sampler_id = 32\<rparr>,
                            \<lparr>combined_id = 34, image_id = 31, sampler_id = 32\<rparr>]
      else [\<lparr>combined_id = 42, image_id = 40, sampler_id = 41\<rparr>])"

definition example_env :: "(descriptor list, (nat \<times> nat) list) env" where
  "example_env =
     \<lparr>TARGET_MAP = example_target_map,
      PATH_SEPARATOR = ''/'',
      AUTOGEN_CIS_DESCRIPTOR_SET = 9,
      api_value = (\<lambda>a. case a of GL \<Rightarrow> 0 | VULKAN \<Rightarrow> 1 | METAL \<Rightarrow> 2),
      std_sort = insertion_sort,
      read_file = (\<lambda>p. if p = ''in.hlsl'' then example_source
                        else if p = ''two.hlsl'' then example_source @ newline @ lit_source
                        else []),
      parse_techniques = example_parser,
      CompileGlslToSpv = (\<lambda>src k p n opts.
         \<lparr>compilation_success = True, error_message = [],
          spv_words = (if n = ''VSMain'' then [1] else if n = ''PSMain'' then [2]
                       else if n = ''VSLit'' then [3] else [4])\<rparr>),
      header_is_open = (\<lambda>folder p. p \<noteq> ''locked.h''),
      header_writer_path = (\<lambda>folder p. folder @ ''/'' @ p),
      fopen_succeeds = (\<lambda>p. p \<noteq> ''./main.vs.300es.glsl''),
      spirv_cross_names = (\<lambda>k w. example_names),
      spirv_cross_decorations = (\<lambda>k w. Map.empty),
      get_shader_resources = (\<lambda>k w. example_resources w),
      get_combined_image_samplers = (\<lambda>k w.
         case k of CompilerGLSL v s e \<Rightarrow> example_combined w | _ \<Rightarrow> []),
      compile = example_compile,
      new_pipeline_layout = [],
      process_resources = (\<lambda>rs dt smb remap c l.
         (l @ map (\<lambda>r. \<lparr>slot = res_id r, dtype = dt,
                          stage_mask = (if smb = STAGE_MASK_VERTEX then 1 else 2)\<rparr>) rs, c)),
      set_count = (\<lambda>l. 1),
      layout_set = (\<lambda>l i. l),
      new_separate_to_combined_map = [],
      add_resource = (\<lambda>s cb c m. m @ [(s, cb)]),
      serialize = (\<lambda>m. length m # concat (map (\<lambda>(s, cb). [s, 1, cb]) m))\<rparr>"

section \<open>Reading a run\<close>

text \<open>
  What the statements below say about a run is read off its events. The output loops run
  over the targets, the techniques and the entry points; \<open>over_targets\<close> and
  \<open>over_entry_points\<close> put the contributions of the iterations one after another, in
  the order of the lists, the first target iteration being the one in which
  \<^verbatim>\<open>generate_pipeline_metadata\<close> is true.
\<close>

definition over_entry_points ::
  "(technique \<Rightarrow> entry_point \<Rightarrow> 'a list) \<Rightarrow> technique list \<Rightarrow> 'a list" where
  "over_entry_points f techniques =
     concat (map (\<lambda>tech. concat (map (f tech) (entry_points tech))) techniques)"

definition over_targets :: "(bool \<Rightarrow> target_info \<Rightarrow> 'a list) \<Rightarrow> target_info list \<Rightarrow> 'a list" where
  "over_targets f tis =
     (case tis of [] \<Rightarrow> [] | ti # rest \<Rightarrow> f True ti @ concat (map (f False) rest))"

subsection \<open>The calls on the layout builder\<close>

text \<open>
  The order of the resource kinds as the spec gives it, and the calls on the layout
  builder that this order prescribes for one entry point: none when the target is not
  remapped and the metadata is not being generated.
\<close>

definition resource_kinds_in_order :: "descriptor_type list" where
  "resource_kinds_in_order = [UNIFORM_BUFFER, STORAGE_BUFFER, SAMPLER, TEXTURE]"

fun resources_of_kind :: "shader_resources \<Rightarrow> descriptor_type \<Rightarrow> resource list" where
  "resources_of_kind rs UNIFORM_BUFFER = uniform_buffers rs"
| "resources_of_kind rs STORAGE_BUFFER = storage_buffers rs"
| "resources_of_kind rs SAMPLER = separate_samplers rs"
| "resources_of_kind rs TEXTURE = separate_images rs"

definition expected_process_calls ::
  "('l, 'm) env \<Rightarrow> bool \<Rightarrow> target_info \<Rightarrow> entry_point \<Rightarrow> spv_compilation_result
     \<Rightarrow> event list" where
  "expected_process_calls env gpm ti ep r =
     (if api ti = GL \<or> api ti = METAL \<or> gpm
      then map (\<lambda>dt. Process_resources
                       (resources_of_kind
                          (get_shader_resources env (cross_compiler_kind_of ti) (spv_words r))
                          dt)
                       dt
                       (if ep_kind ep = shaderc_vertex_shader
                        then STAGE_MASK_VERTEX else STAGE_MASK_FRAGMENT)
                       (api ti = GL \<or> api ti = METAL))
             resource_kinds_in_order
      else [])"

fun is_process_resources :: "event \<Rightarrow> bool" where
  "is_process_resources (Process_resources rs dt smb remap) = True"
| "is_process_resources e = False"

subsection \<open>The calls that rename and bind the combined samplers\<close>

text \<open>
  For the tuple at position \<open>k\<close> of the list that reflection returns, three calls: the
  combined resource gets the name of the image, an underscore and the name of the sampler,
  the names being those that the compiler holds when the earlier tuples of the list have
  been renamed (\<open>names_after\<close>); its binding is \<open>k\<close>; its descriptor set is the given one.
\<close>

fun is_combined_sampler_call :: "event \<Rightarrow> bool" where
  "is_combined_sampler_call (Set_name i n) = True"
| "is_combined_sampler_call (Set_decoration i d v) = True"
| "is_combined_sampler_call e = False"

fun names_after :: "(nat \<Rightarrow> string) \<Rightarrow> combined_image_sampler list \<Rightarrow> nat \<Rightarrow> string" where
  "names_after nm [] = nm"
| "names_after nm (t # ts) =
     names_after (nm(combined_id t := nm (image_id t) @ ''_'' @ nm (sampler_id t))) ts"

definition combined_sampler_calls ::
  "nat \<Rightarrow> (nat \<Rightarrow> string) \<Rightarrow> combined_image_sampler list \<Rightarrow> event list" where
  "combined_sampler_calls cis_set nm cis =
     concat (map (\<lambda>k. [Set_name (combined_id (cis ! k))
                          (names_after nm (take k cis) (image_id (cis ! k)) @ ''_''
                             @ names_after nm (take k cis) (sampler_id (cis ! k))),
                        Set_decoration (combined_id (cis ! k)) DecorationBinding k,
                        Set_decoration (combined_id (cis ! k)) DecorationDescriptorSet
                          cis_set])
               [0 ..< length cis])"

definition expected_combined_sampler_calls ::
  "('l, 'm) env \<Rightarrow> target_info \<Rightarrow> spv_compilation_result \<Rightarrow> event list" where
  "expected_combined_sampler_calls env ti r =
     combined_sampler_calls (AUTOGEN_CIS_DESCRIPTOR_SET env)
       (spirv_cross_names env (cross_compiler_kind_of ti) (spv_words r))
       (get_combined_image_samplers env (cross_compiler_kind_of ti) (spv_words r))"

subsection \<open>The compiler instance and the layout of an entry point\<close>

text \<open>
  \<open>prepared_instance\<close> is the compiler instance of an entry point before the layout is
  fed: it is of the kind that the target asks for and holds the entry point's module, what
  reflection returns for it, and the names and the decorations of a fresh instance with
  the combined samplers renamed and bound, tuple by tuple, the tuple at position \<open>k\<close> to
  binding \<open>k\<close> of the given descriptor set.
\<close>

fun decorations_after ::
  "nat \<Rightarrow> nat \<Rightarrow> (nat \<times> decoration \<Rightarrow> nat option) \<Rightarrow> combined_image_sampler list
     \<Rightarrow> nat \<times> decoration \<Rightarrow> nat option" where
  "decorations_after cis_set k d [] = d"
| "decorations_after cis_set k d (t # ts) =
     decorations_after cis_set (Suc k)
       (d((combined_id t, DecorationBinding) \<mapsto> k,
          (combined_id t, DecorationDescriptorSet) \<mapsto> cis_set))
       ts"

definition prepared_instance ::
  "('l, 'm) env \<Rightarrow> target_info \<Rightarrow> spv_compilation_result \<Rightarrow> compiler" where
  "prepared_instance env ti r =
     \<lparr>kind = cross_compiler_kind_of ti,
      spirv = spv_words r,
      names = names_after (spirv_cross_names env (cross_compiler_kind_of ti) (spv_words r))
                (get_combined_image_samplers env (cross_compiler_kind_of ti) (spv_words r)),
      decorations =
        decorations_after (AUTOGEN_CIS_DESCRIPTOR_SET env) 0
          (spirv_cross_decorations env (cross_compiler_kind_of ti) (spv_words r))
          (get_combined_image_samplers env (cross_compiler_kind_of ti) (spv_words r)),
      shader_resources_of =
        get_shader_resources env (cross_compiler_kind_of ti) (spv_words r),
      combined_image_samplers =
        get_combined_image_samplers env (cross_compiler_kind_of ti) (spv_words r)\<rparr>"

text \<open>
  \<open>fed\<close> gives the layout with the two maps, and the instance, after the block that
  feeds the layout, which is entered for a remapped target and while the metadata is being
  generated. Every combined sampler is recorded in the two maps, under its image and under
  its sampler, with the prepared instance; then the layout builder is called once for each
  resource kind, in the order of the kinds, each call with the layout and the instance as
  the call before left them (the layout builder may rebind resources in the instance).
\<close>

definition fed ::
  "('l, 'm) env \<Rightarrow> bool \<Rightarrow> target_info \<Rightarrow> entry_point \<Rightarrow> spv_compilation_result
     \<Rightarrow> 'l \<times> 'm \<times> 'm \<Rightarrow> ('l \<times> 'm \<times> 'm) \<times> compiler" where
  "fed env gpm ti ep r st =
     (if api ti = GL \<or> api ti = METAL \<or> gpm
      then
        (case st of (l, images_to_cis, samplers_to_cis) \<Rightarrow>
           (case fold (\<lambda>dt (l, c).
                         process_resources env
                           (resources_of_kind
                              (get_shader_resources env (cross_compiler_kind_of ti)
                                 (spv_words r))
                              dt)
                           dt
                           (if ep_kind ep = shaderc_vertex_shader
                            then STAGE_MASK_VERTEX else STAGE_MASK_FRAGMENT)
                           (api ti = GL \<or> api ti = METAL) c l)
                   resource_kinds_in_order (l, prepared_instance env ti r) of
              (l', c') \<Rightarrow>
                ((l',
                  fold (\<lambda>t. add_resource env (image_id t) (combined_id t)
                               (prepared_instance env ti r))
                    (get_combined_image_samplers env (cross_compiler_kind_of ti)
                       (spv_words r))
                    images_to_cis,
                  fold (\<lambda>t. add_resource env (sampler_id t) (combined_id t)
                               (prepared_instance env ti r))
                    (get_combined_image_samplers env (cross_compiler_kind_of ti)
                       (spv_words r))
                    samplers_to_cis),
                 c')))
      else (st, prepared_instance env ti r))"

definition layout_after ::
  "('l, 'm) env \<Rightarrow> bool \<Rightarrow> target_info \<Rightarrow> entry_point \<Rightarrow> spv_compilation_result
     \<Rightarrow> 'l \<times> 'm \<times> 'm \<Rightarrow> 'l \<times> 'm \<times> 'm" where
  "layout_after env gpm ti ep r st = fst (fed env gpm ti ep r st)"

definition translated_instance ::
  "('l, 'm) env \<Rightarrow> bool \<Rightarrow> target_info \<Rightarrow> entry_point \<Rightarrow> spv_compilation_result
     \<Rightarrow> 'l \<times> 'm \<times> 'm \<Rightarrow> compiler" where
  "translated_instance env gpm ti ep r st = snd (fed env gpm ti ep r st)"

text \<open>
  The layout and the maps of a technique when all its entry points have been processed
  for a target: every technique starts with a new layout and new maps.
\<close>

definition new_layout :: "('l, 'm) env \<Rightarrow> 'l \<times> 'm \<times> 'm" where
  "new_layout env =
     (new_pipeline_layout env, new_separate_to_combined_map env,
      new_separate_to_combined_map env)"

definition layout_of_technique ::
  "('l, 'm) env \<Rightarrow> bool \<Rightarrow> target_info \<Rightarrow> (entry_point \<Rightarrow> spv_compilation_result)
     \<Rightarrow> entry_point list \<Rightarrow> 'l \<times> 'm \<times> 'm \<Rightarrow> 'l \<times> 'm \<times> 'm" where
  "layout_of_technique env gpm ti g eps st =
     fold (\<lambda>ep. layout_after env gpm ti ep (g ep)) eps st"

subsection \<open>The translated-shader files\<close>


fun translated_files ::
  "('l, 'm) env \<Rightarrow> options \<Rightarrow> bool \<Rightarrow> target_info \<Rightarrow> technique
     \<Rightarrow> (entry_point \<Rightarrow> spv_compilation_result) \<Rightarrow> entry_point list \<Rightarrow> 'l \<times> 'm \<times> 'm
     \<Rightarrow> event list" where
  "translated_files env opts gpm ti tech g [] st = []"
| "translated_files env opts gpm ti tech g (ep # eps) st =
     [Fopen (out_file_path_of env opts tech ep ti),
      Fwrite (out_file_path_of env opts tech ep ti)
        (if api ti = VULKAN then Words (spv_words (g ep))
         else Text (compile env (translated_instance env gpm ti ep (g ep) st))),
      Fclose (out_file_path_of env opts tech ep ti)]
     @ translated_files env opts gpm ti tech g eps (layout_after env gpm ti ep (g ep) st)"


subsection \<open>The \<^verbatim>\<open>.pipeline\<close> file and the header block of a technique\<close>

text \<open>
  The \<^verbatim>\<open>.pipeline\<close> file of a technique, as the spec lays it out: the pipeline-layout record
  (the number of sets, then for each set the number of descriptors and, for each
  descriptor, slot, type and stage mask), the record of the image-to-combined map, the
  record of the sampler-to-combined map, and the user-metadata record (the number of
  pairs, then key and value of each pair as zero-terminated strings). Every record is
  started on the file, and the file is finalized. The header block of a technique has
  one line per descriptor of the layout, set by set.
\<close>

fun in_pipeline_file :: "event \<Rightarrow> bool" where
  "in_pipeline_file (Pipeline_metadata_file p) = True"
| "in_pipeline_file Start_new_record = True"
| "in_pipeline_file (Write_field n) = True"
| "in_pipeline_file (Write_type_field t) = True"
| "in_pipeline_file (Write_raw_bytes s) = True"
| "in_pipeline_file Finalize = True"
| "in_pipeline_file e = False"

fun in_header_block :: "event \<Rightarrow> bool" where
  "in_header_block (Begin_technique n) = True"
| "in_header_block (Write_descriptor d s) = True"
| "in_header_block End_technique = True"
| "in_header_block e = False"

definition layout_record :: "('l, 'm) env \<Rightarrow> 'l \<Rightarrow> event list" where
  "layout_record env l =
     Write_field (set_count env l)
     # concat (map (\<lambda>s. Write_field (length (layout_set env l s) mod 2 ^ 32)
                         # concat (map (\<lambda>d. [Write_field (slot d), Write_type_field (dtype d),
                                              Write_field (stage_mask d)])
                                     (layout_set env l s)))
                 [0 ..< set_count env l])"

definition user_metadata_record :: "technique \<Rightarrow> event list" where
  "user_metadata_record tech =
     Write_field (length (additional_metadata tech) mod 2 ^ 32)
     # concat (map (\<lambda>kv. [Write_raw_bytes (fst kv @ [CHR 0x00]),
                           Write_raw_bytes (snd kv @ [CHR 0x00])])
                 (additional_metadata tech))"

definition pipeline_file ::
  "('l, 'm) env \<Rightarrow> options \<Rightarrow> technique \<Rightarrow> 'l \<times> 'm \<times> 'm \<Rightarrow> event list" where
  "pipeline_file env opts tech st =
     (case st of (l, images_to_cis, samplers_to_cis) \<Rightarrow>
        Pipeline_metadata_file
          (out_folder opts @ PATH_SEPARATOR env @ tech_name tech @ ''.pipeline'')
        # Start_new_record # layout_record env l
        @ Start_new_record # map Write_field (serialize env images_to_cis)
        @ Start_new_record # map Write_field (serialize env samplers_to_cis)
        @ Start_new_record # user_metadata_record tech
        @ [Finalize])"

definition header_block :: "('l, 'm) env \<Rightarrow> technique \<Rightarrow> 'l \<times> 'm \<times> 'm \<Rightarrow> event list" where
  "header_block env tech st =
     Begin_technique (tech_name tech)
     # concat (map (\<lambda>s. map (\<lambda>d. Write_descriptor d s) (layout_set env (fst st) s))
                 [0 ..< set_count env (fst st)])
     @ [End_technique]"

subsection \<open>The order of the targets\<close>


subsection \<open>The events of the output loops\<close>

text \<open>
  The events of one entry point up to the opening of its file, and all its events when
  the file can be opened; those of the entry points of a technique from a layout on, of a
  technique, and of all targets. \<open>g\<close> gives the module of an entry point.
\<close>

definition entry_point_attempt ::
  "('l, 'm) env \<Rightarrow> bool \<Rightarrow> target_info \<Rightarrow> entry_point \<Rightarrow> spv_compilation_result
     \<Rightarrow> event list" where
  "entry_point_attempt env gpm ti ep r =
     (let c0 = create_cross_compiler env (spv_words r) ti
      in fst (bind_combined_image_samplers (AUTOGEN_CIS_DESCRIPTOR_SET env)
                (combined_image_samplers c0) 0 c0))
     @ expected_process_calls env gpm ti ep r"

fun entry_points_events ::
  "('l, 'm) env \<Rightarrow> options \<Rightarrow> bool \<Rightarrow> target_info \<Rightarrow> technique
     \<Rightarrow> (entry_point \<Rightarrow> spv_compilation_result) \<Rightarrow> entry_point list \<Rightarrow> 'l \<times> 'm \<times> 'm
     \<Rightarrow> event list" where
  "entry_points_events env opts gpm ti tech g [] st = []"
| "entry_points_events env opts gpm ti tech g (ep # eps) st =
     entry_point_attempt env gpm ti ep (g ep)
     @ translated_files env opts gpm ti tech g [ep] st
     @ entry_points_events env opts gpm ti tech g eps (layout_after env gpm ti ep (g ep) st)"

definition technique_events ::
  "('l, 'm) env \<Rightarrow> options \<Rightarrow> bool \<Rightarrow> target_info
     \<Rightarrow> (technique \<Rightarrow> entry_point \<Rightarrow> spv_compilation_result) \<Rightarrow> technique \<Rightarrow> event list"
  where
  "technique_events env opts gpm ti g tech =
     entry_points_events env opts gpm ti tech (g tech) (entry_points tech) (new_layout env)
     @ (if gpm
        then write_pipeline_metadata env opts tech
               (layout_of_technique env gpm ti (g tech) (entry_points tech) (new_layout env))
        else [])"

definition output_events ::
  "('l, 'm) env \<Rightarrow> options \<Rightarrow> (technique \<Rightarrow> entry_point \<Rightarrow> spv_compilation_result)
     \<Rightarrow> technique list \<Rightarrow> target_info list \<Rightarrow> event list" where
  "output_events env opts g techs tis =
     over_targets (\<lambda>gpm ti. concat (map (technique_events env opts gpm ti g) techs)) tis"

definition openable :: "('l, 'm) env \<Rightarrow> options \<Rightarrow> technique list \<Rightarrow> target_info \<Rightarrow> bool" where
  "openable env opts techs ti \<longleftrightarrow>
     (\<forall>tech \<in> set techs. \<forall>ep \<in> set (entry_points tech).
        fopen_succeeds env (out_file_path_of env opts tech ep ti))"

text \<open>
  When a run with accepted options goes through: there are targets and techniques, every
  module compiles, the header (if one is asked for) is open, and every translated-shader
  file of every target can be opened.
\<close>

definition completes :: "('l, 'm) env \<Rightarrow> string \<Rightarrow> options \<Rightarrow> bool" where
  "completes env path opts \<longleftrightarrow>
     targets opts \<noteq> []
     \<and> parse_techniques env (read_file env path @ newline) \<noteq> []
     \<and> (\<forall>tech \<in> set (parse_techniques env (read_file env path @ newline)).
          \<forall>ep \<in> set (entry_points tech).
            compilation_success
              (compile_entry_point env (read_file env path @ newline) path tech ep))
     \<and> (header_path opts = [] \<or> header_is_open env (out_folder opts) (header_path opts))
     \<and> (\<forall>ti \<in> set (sort_targets env (targets opts)).
          openable env opts (parse_techniques env (read_file env path @ newline)) ti)"

section \<open>The command line\<close>

lemmas example_defs = example_env_def example_target_map_def example_technique_def
  lit_technique_def example_source_def lit_source_def example_names_def example_compile_def
  example_resources_def example_combined_def example_parser_def terminated_lines_def
  insertion_sort_def

lemma process_options_exit_code:
  "snd (process_options tm os opts) = Inl code \<Longrightarrow> code = 1"
  by (induction tm os opts rule: process_options.induct) (auto split: if_splits option.splits)

lemma process_options_no_events:
  "snd (process_options tm os opts) = Inr opts' \<Longrightarrow> fst (process_options tm os opts) = []"
  by (induction tm os opts rule: process_options.induct) (auto split: if_splits option.splits)

lemma process_options_missing_value:
  "odd (length os) \<Longrightarrow> snd (process_options tm os opts) = Inl 1"
  by (induction tm os opts rule: process_options.induct) (auto split: if_splits option.splits)

lemma process_options_unknown_option:
  "2 * i < length os \<Longrightarrow> os ! (2 * i) \<notin> {''-t'', ''-O'', ''-h'', ''-n''}
     \<Longrightarrow> snd (process_options tm os opts) = Inl 1"
proof (induction tm os opts arbitrary: i rule: process_options.induct)
  case (1 tm opts)
  then show ?case by simp
next
  case (2 tm option_name opts)
  then show ?case by simp
next
  case (3 tm option_name option_value rest opts)
  show ?case
  proof (cases i)
    case 0
    with 3 show ?thesis by auto
  next
    case (Suc j)
    with "3.prems" have j: "2 * j < length rest"
      "rest ! (2 * j) \<notin> {''-t'', ''-O'', ''-h'', ''-n''}"
      by auto
    show ?thesis
      using "3.IH"(1)[OF _ _ j] "3.IH"(2)[OF _ _ j] "3.IH"(3)[OF _ _ _ j]
        "3.IH"(4)[OF _ _ _ _ j]
      by (auto split: option.splits)
  qed
qed

lemma process_options_unknown_target:
  "2 * i + 1 < length os \<Longrightarrow> os ! (2 * i) = ''-t'' \<Longrightarrow> os ! (2 * i + 1) \<notin> fst ` set tm
     \<Longrightarrow> snd (process_options tm os opts) = Inl 1"
proof (induction tm os opts arbitrary: i rule: process_options.induct)
  case (1 tm opts)
  then show ?case by simp
next
  case (2 tm option_name opts)
  then show ?case by simp
next
  case (3 tm option_name option_value rest opts)
  show ?case
  proof (cases i)
    case 0
    with "3.prems" have "find (\<lambda>x. option_value = fst x) tm = None"
      by (force simp: find_None_iff)
    with 0 "3.prems" show ?thesis by simp
  next
    case (Suc j)
    with "3.prems" have j: "2 * j + 1 < length rest" "rest ! (2 * j) = ''-t''"
      "rest ! (2 * j + 1) \<notin> fst ` set tm"
      by auto
    show ?thesis
      using "3.IH"(1)[OF _ _ j] "3.IH"(2)[OF _ _ j] "3.IH"(3)[OF _ _ _ j]
        "3.IH"(4)[OF _ _ _ _ j]
      by (auto split: option.splits)
  qed
qed

lemma process_options_no_target_option:
  "\<forall>i. 2 * i < length os \<longrightarrow> os ! (2 * i) \<noteq> ''-t''
     \<Longrightarrow> snd (process_options tm os opts) = Inr opts' \<Longrightarrow> targets opts' = targets opts"
proof (induction tm os opts rule: process_options.induct)
  case (1 tm opts)
  then show ?case by simp
next
  case (2 tm option_name opts)
  then show ?case by simp
next
  case (3 tm option_name option_value rest opts)
  from "3.prems"(1) have h: "option_name \<noteq> ''-t''" by (auto dest: spec[of _ 0])
  have r: "\<forall>i. 2 * i < length rest \<longrightarrow> rest ! (2 * i) \<noteq> ''-t''"
  proof (intro allI impI)
    fix i assume "2 * i < length rest"
    with "3.prems"(1)[rule_format, of "Suc i"] show "rest ! (2 * i) \<noteq> ''-t''" by simp
  qed
  show ?case
    using h "3.prems"(2) "3.IH"(2)[OF _ _ r] "3.IH"(3)[OF _ _ _ r] "3.IH"(4)[OF _ _ _ _ r]
    by (auto split: if_splits)
qed

lemma run_no_targets: "targets opts = [] \<Longrightarrow> snd (run env p opts) = 1"
  by (simp add: run_def)

lemma main_exit_code_of_options:
  "2 \<le> length argv
     \<Longrightarrow> snd (process_options (TARGET_MAP env) (drop 2 argv) default_options) = Inl c
     \<Longrightarrow> snd (main env argv) = c"
  by (auto simp: main_def split: prod.splits sum.splits)

lemma main_accepted:
  "2 \<le> length argv
     \<Longrightarrow> snd (process_options (TARGET_MAP env) (drop 2 argv) default_options) = Inr opts
     \<Longrightarrow> main env argv = run env (argv ! 1) opts"
  using process_options_no_events[of "TARGET_MAP env" "drop 2 argv" default_options opts]
  by (auto simp: main_def split: prod.splits sum.splits)

text \<open>
  Claim C9. Invoked with no arguments at all (\<^verbatim>\<open>argc <= 1\<close>: not even an input file),
  \<^verbatim>\<open>main\<close> prints the usage text and a newline to standard output, does nothing else,
  and the exit code is 0.
\<close>

theorem no_arguments_prints_usage:
  "length argv \<le> 1 \<Longrightarrow> main env argv = ([Printf (USAGE @ newline)], 0)"
  by (simp add: main_def)

theorem no_arguments_prints_usage_witness:
  "length [''ngf_shaderc''] \<le> 1
     \<and> main example_env [''ngf_shaderc''] = ([Printf (USAGE @ newline)], 0)"
  using no_arguments_prints_usage [of "[''ngf_shaderc'']" example_env] by simp

text \<open>
  Claim C7. When an input file is given (\<open>argv\<close> has at least two entries), the exit code
  is 1 in each of these cases: the last option name has no value after it (the options
  start at index 2, so \<open>argv\<close> has odd length); some option name (an even index from 2
  on) is not one of \<^verbatim>\<open>-t\<close>, \<^verbatim>\<open>-O\<close>, \<^verbatim>\<open>-h\<close>, \<^verbatim>\<open>-n\<close>; the value of some \<^verbatim>\<open>-t\<close> is not a name of
  \<^verbatim>\<open>TARGET_MAP\<close>; no option name is \<^verbatim>\<open>-t\<close>.
\<close>

theorem bad_command_line_exits_1:
  assumes "2 \<le> length argv"
    and "odd (length argv)
       \<or> (\<exists>j. even j \<and> 2 \<le> j \<and> j < length argv
              \<and> argv ! j \<notin> {''-t'', ''-O'', ''-h'', ''-n''})
       \<or> (\<exists>j. even j \<and> 2 \<le> j \<and> j + 1 < length argv \<and> argv ! j = ''-t''
              \<and> argv ! (j + 1) \<notin> fst ` set (TARGET_MAP env))
       \<or> (\<forall>j. even j \<and> 2 \<le> j \<and> j < length argv \<longrightarrow> argv ! j \<noteq> ''-t'')"
  shows "snd (main env argv) = 1"
proof -
  let ?os = "drop 2 argv"
  let ?r = "process_options (TARGET_MAP env) ?os default_options"
  consider (missing) "odd (length argv)"
    | (option) j where "even j" "2 \<le> j" "j < length argv"
        "argv ! j \<notin> {''-t'', ''-O'', ''-h'', ''-n''}"
    | (target) j where "even j" "2 \<le> j" "j + 1 < length argv" "argv ! j = ''-t''"
        "argv ! (j + 1) \<notin> fst ` set (TARGET_MAP env)"
    | (none) "\<forall>j. even j \<and> 2 \<le> j \<and> j < length argv \<longrightarrow> argv ! j \<noteq> ''-t''"
    using assms(2) by blast
  then show ?thesis
  proof cases
    case missing
    with assms(1) have "odd (length ?os)" by simp
    then have "snd ?r = Inl 1" by (rule process_options_missing_value)
    with assms(1) show ?thesis by (rule main_exit_code_of_options)
  next
    case option
    then have "j = 2 * (j div 2 - 1) + 2" by presburger
    then obtain i where i: "j = 2 * i + 2" ..
    with option assms(1) have "2 * i < length ?os"
      "?os ! (2 * i) \<notin> {''-t'', ''-O'', ''-h'', ''-n''}"
      by (simp_all add: add.commute)
    then have "snd ?r = Inl 1" by (rule process_options_unknown_option)
    with assms(1) show ?thesis by (rule main_exit_code_of_options)
  next
    case target
    then have "j = 2 * (j div 2 - 1) + 2" by presburger
    then obtain i where i: "j = 2 * i + 2" ..
    with target assms(1) have "2 * i + 1 < length ?os" "?os ! (2 * i) = ''-t''"
      "?os ! (2 * i + 1) \<notin> fst ` set (TARGET_MAP env)"
      by (simp_all add: add.commute)
    then have "snd ?r = Inl 1" by (rule process_options_unknown_target)
    with assms(1) show ?thesis by (rule main_exit_code_of_options)
  next
    case none
    have no: "\<forall>i. 2 * i < length ?os \<longrightarrow> ?os ! (2 * i) \<noteq> ''-t''"
    proof (intro allI impI)
      fix i assume "2 * i < length ?os"
      with none[rule_format, of "2 * i + 2"] assms(1) show "?os ! (2 * i) \<noteq> ''-t''"
        by (simp add: add.commute)
    qed
    show ?thesis
    proof (cases "snd ?r")
      case (Inl c)
      with process_options_exit_code[OF Inl] assms(1) show ?thesis
        by (simp add: main_exit_code_of_options)
    next
      case (Inr opts')
      from process_options_no_target_option[OF no Inr] have "targets opts' = []"
        by (simp add: default_options_def)
      then have "snd (run env (argv ! 1) opts') = 1" by (rule run_no_targets)
      with Inr assms(1) show ?thesis by (simp add: main_accepted)
    qed
  qed
qed

theorem bad_command_line_exits_1_witness:
  "snd (main example_env [''ngf_shaderc'', ''in.hlsl'', ''-t'']) = 1
   \<and> snd (main example_env [''ngf_shaderc'', ''in.hlsl'', ''-x'', ''gl430'']) = 1
   \<and> snd (main example_env [''ngf_shaderc'', ''in.hlsl'', ''-t'', ''dx12'']) = 1
   \<and> snd (main example_env [''ngf_shaderc'', ''in.hlsl'', ''-O'', ''out'']) = 1"
proof (intro conjI)
  show "snd (main example_env [''ngf_shaderc'', ''in.hlsl'', ''-t'']) = 1"
    by (rule bad_command_line_exits_1) (simp, rule disjI1, simp)
  show "snd (main example_env [''ngf_shaderc'', ''in.hlsl'', ''-x'', ''gl430'']) = 1"
    by (rule bad_command_line_exits_1)
      (simp, rule disjI2, rule disjI1, rule exI[of _ 2], simp)
  show "snd (main example_env [''ngf_shaderc'', ''in.hlsl'', ''-t'', ''dx12'']) = 1"
    by (rule bad_command_line_exits_1)
      (simp, rule disjI2, rule disjI2, rule disjI1, rule exI[of _ 2],
       simp add: example_defs)
  have none: "[''ngf_shaderc'', ''in.hlsl'', ''-O'', ''out''] ! j \<noteq> ''-t''"
    if "even j \<and> 2 \<le> j \<and> j < length [''ngf_shaderc'', ''in.hlsl'', ''-O'', ''out'']"
    for j :: nat
  proof -
    from that have "even j" "2 \<le> j" "j < 4" by simp_all
    then have "j = 2" by presburger
    then show ?thesis by simp
  qed
  show "snd (main example_env [''ngf_shaderc'', ''in.hlsl'', ''-O'', ''out'']) = 1"
    by (rule bad_command_line_exits_1)
      (simp, rule disjI2, rule disjI2, rule disjI2, intro allI impI, rule none)
qed

section \<open>Before the output loops\<close>

lemma process_options_nil_targets:
  "snd (process_options tm [] default_options) = Inr opts \<Longrightarrow> targets opts = [] \<and> header_path opts = []"
  by (auto simp: default_options_def)

lemma accepted_has_input_file:
  assumes "snd (process_options (TARGET_MAP env) (drop 2 argv) default_options) = Inr opts"
    and "targets opts \<noteq> [] \<or> header_path opts \<noteq> []"
  shows "2 \<le> length argv"
proof (rule ccontr)
  assume "\<not> 2 \<le> length argv"
  then have "drop 2 argv = []" by simp
  with assms(1) have "targets opts = [] \<and> header_path opts = []"
    by (simp add: process_options_nil_targets)
  with assms(2) show False by simp
qed

text \<open>
  Claim C6. When the command line is accepted and names at least one target, and parsing
  the input (the file's text and a newline) yields no technique, the run consists of one
  diagnostic on standard error, which mentions techniques, and the exit code is 1:
  nothing else is written.
\<close>

theorem no_techniques_fails:
  assumes "snd (process_options (TARGET_MAP env) (drop 2 argv) default_options) = Inr opts"
    and "targets opts \<noteq> []"
    and "parse_techniques env (read_file env (argv ! 1) @ newline) = []"
  shows "main env argv = ([Eprintf no_techniques_message], 1)
         \<and> sublist ''techniques'' no_techniques_message"
proof
  from assms(1,2) have "2 \<le> length argv" by (auto intro: accepted_has_input_file)
  from this assms(1) have "main env argv = run env (argv ! 1) opts" by (rule main_accepted)
  with assms(2,3) show "main env argv = ([Eprintf no_techniques_message], 1)"
    by (simp add: run_def)
  have "no_techniques_message =
          ''Input file does not appear to define any '' @ ''techniques''
          @ (''. Define techniques with a special comment ('' @ [CHR 0x60] @ ''//T:''
             @ [CHR 0x27] @ '').'' @ newline)"
    by (simp add: no_techniques_message_def)
  then show "sublist ''techniques'' no_techniques_message"
    unfolding sublist_def by blast
qed

theorem no_techniques_fails_witness:
  "main example_env [''ngf_shaderc'', ''empty.hlsl'', ''-t'', ''gl430'']
     = ([Eprintf no_techniques_message], 1)"
proof -
  let ?argv = "[''ngf_shaderc'', ''empty.hlsl'', ''-t'', ''gl430'']"
  let ?opts = "default_options\<lparr>targets := [snd (example_target_map ! 0)]\<rparr>"
  have a: "snd (process_options (TARGET_MAP example_env) (drop 2 ?argv) default_options)
             = Inr ?opts"
    by (simp add: example_defs default_options_def)
  have b: "targets ?opts \<noteq> []" by simp
  have c: "parse_techniques example_env (read_file example_env (?argv ! 1) @ newline) = []"
    by (simp add: example_defs newline_def)
  from no_techniques_fails [OF a b c] show ?thesis by simp
qed

text \<open>
  The front-end compilations as a whole: the run stops at the first module whose
  compilation did not succeed, with its error message, and otherwise has all the modules,
  technique by technique and entry point by entry point.
\<close>

lemma find_append:
  "find P (xs @ ys) = (case find P xs of None \<Rightarrow> find P ys | Some x \<Rightarrow> Some x)"
  by (induction xs) simp_all

lemma compile_entry_points_eq:
  "compile_entry_points env src path tech eps acc =
     (case find (\<lambda>r. \<not> compilation_success r)
             (map (compile_entry_point env src path tech) eps) of
        None \<Rightarrow> ([], Inr (acc @ map (compile_entry_point env src path tech) eps))
      | Some r \<Rightarrow> ([Eprintf (error_message r)], Inl 1))"
  by (induction eps arbitrary: acc) (simp_all add: Let_def split: option.splits)

lemma compile_techniques_eq:
  "compile_techniques env src path techs acc =
     (case find (\<lambda>r. \<not> compilation_success r)
             (concat (map (\<lambda>tech. map (compile_entry_point env src path tech)
                                     (entry_points tech)) techs)) of
        None \<Rightarrow> ([], Inr (acc @ concat (map (\<lambda>tech. map (compile_entry_point env src path tech)
                                                    (entry_points tech)) techs)))
      | Some r \<Rightarrow> ([Eprintf (error_message r)], Inl 1))"
  by (induction techs arbitrary: acc)
    (simp_all add: compile_entry_points_eq find_append io_bind_def split: option.splits)

text \<open>
  Claim C10. When the command line is accepted with a header path (\<^verbatim>\<open>-h\<close>) and the header
  file cannot be opened, the exit code is 1 and the run opens no translated-shader file
  and no \<^verbatim>\<open>.pipeline\<close> file. The header is opened and checked after the front-end
  compilations and before the output loops. With targets and techniques: when the
  compilation of a module fails, the run is the error message of the first such module
  and nothing else, so the header writer is not even constructed; when every compilation
  succeeds, the run is exactly the construction of the header writer and the diagnostic
  about the header.
\<close>

theorem header_failure_precedes_output:
  assumes "snd (process_options (TARGET_MAP env) (drop 2 argv) default_options) = Inr opts"
    and "header_path opts \<noteq> []"
    and "\<not> header_is_open env (out_folder opts) (header_path opts)"
    and "src = read_file env (argv ! 1) @ newline"
    and "modules = concat (map (\<lambda>tech. map (compile_entry_point env src (argv ! 1) tech)
                                          (entry_points tech))
                             (parse_techniques env src))"
  shows "snd (main env argv) = 1
         \<and> [p. Fopen p \<leftarrow> fst (main env argv)] = []
         \<and> [p. Pipeline_metadata_file p \<leftarrow> fst (main env argv)] = []
         \<and> (targets opts \<noteq> [] \<and> parse_techniques env src \<noteq> []
              \<and> find (\<lambda>r. \<not> compilation_success r) modules = Some r
            \<longrightarrow> main env argv = ([Eprintf (error_message r)], 1))
         \<and> (targets opts \<noteq> [] \<and> parse_techniques env src \<noteq> []
              \<and> find (\<lambda>r. \<not> compilation_success r) modules = None
            \<longrightarrow> fst (main env argv)
                  = [Header_file_writer (out_folder opts) (header_path opts)
                       (header_namespace opts),
                     Eprintf (''Failed to open output file ''
                       @ header_writer_path env (out_folder opts) (header_path opts)
                       @ newline)])"
proof -
  let ?techs = "parse_techniques env src"
  from assms(1,2) have "2 \<le> length argv" by (auto intro: accepted_has_input_file)
  from this assms(1) have m: "main env argv = run env (argv ! 1) opts"
    by (rule main_accepted)
  show ?thesis
  proof (cases "targets opts = [] \<or> ?techs = []")
    case True
    with m assms(4) show ?thesis by (auto simp: run_def Let_def)
  next
    case False
    show ?thesis
    proof (cases "find (\<lambda>r. \<not> compilation_success r) modules")
      case None
      with m False assms(2-5) show ?thesis
        by (simp add: run_def Let_def io_bind_def compile_techniques_eq)
    next
      case (Some r')
      with m False assms(2-5) show ?thesis
        by (simp add: run_def Let_def io_bind_def compile_techniques_eq)
    qed
  qed
qed

theorem header_failure_precedes_output_witness:
  "main example_env [''ngf_shaderc'', ''in.hlsl'', ''-t'', ''gl430'', ''-h'', ''locked.h'']
     = ([Header_file_writer ''.'' ''locked.h'' [],
         Eprintf (''Failed to open output file ./locked.h'' @ newline)], 1)
   \<and> main (example_env\<lparr>CompileGlslToSpv := (\<lambda>src k p n opts.
              \<lparr>compilation_success = (n = ''VSMain''), error_message = n @ '' failed'',
               spv_words = []\<rparr>)\<rparr>)
       [''ngf_shaderc'', ''in.hlsl'', ''-t'', ''gl430'', ''-h'', ''locked.h'']
     = ([Eprintf ''PSMain failed''], 1)"
proof -
  let ?argv = "[''ngf_shaderc'', ''in.hlsl'', ''-t'', ''gl430'', ''-h'', ''locked.h'']"
  let ?opts = "default_options\<lparr>targets := [snd (example_target_map ! 0)],
                 header_path := ''locked.h''\<rparr>"
  let ?env = "example_env\<lparr>CompileGlslToSpv := (\<lambda>src k p n opts.
              \<lparr>compilation_success = (n = ''VSMain''), error_message = n @ '' failed'',
               spv_words = []\<rparr>)\<rparr>"
  let ?bad = "\<lparr>compilation_success = False, error_message = ''PSMain failed'',
               spv_words = []\<rparr>"
  have a: "snd (process_options (TARGET_MAP example_env) (drop 2 ?argv) default_options)
             = Inr ?opts"
    by (simp add: example_defs default_options_def)
  have b: "header_path ?opts \<noteq> []" by simp
  have c: "\<not> header_is_open example_env (out_folder ?opts) (header_path ?opts)"
    by (simp add: example_defs)
  have d: "targets ?opts \<noteq> []" by simp
  have e: "parse_techniques example_env (read_file example_env (?argv ! 1) @ newline) \<noteq> []"
    by (simp add: example_defs newline_def)
  have f: "find (\<lambda>r. \<not> compilation_success r)
             (concat (map (\<lambda>tech. map (compile_entry_point example_env
                                          (read_file example_env (?argv ! 1) @ newline)
                                          (?argv ! 1) tech)
                                     (entry_points tech))
                        (parse_techniques example_env
                           (read_file example_env (?argv ! 1) @ newline)))) = None"
    by (simp add: example_defs newline_def compile_entry_point_def)
  from header_failure_precedes_output [OF a b c refl refl] d e f
  have "snd (main example_env ?argv) = 1"
    and "fst (main example_env ?argv)
           = [Header_file_writer (out_folder ?opts) (header_path ?opts) (header_namespace ?opts),
              Eprintf (''Failed to open output file ''
                @ header_writer_path example_env (out_folder ?opts) (header_path ?opts)
                @ newline)]"
    by blast+
  then have first: "main example_env ?argv
     = ([Header_file_writer ''.'' ''locked.h'' [],
         Eprintf (''Failed to open output file ./locked.h'' @ newline)], 1)"
    by (simp add: prod_eq_iff example_defs default_options_def)
  have a': "snd (process_options (TARGET_MAP ?env) (drop 2 ?argv) default_options)
             = Inr ?opts"
    by (simp add: example_defs default_options_def)
  have b': "\<not> header_is_open ?env (out_folder ?opts) (header_path ?opts)"
    by (simp add: example_defs)
  have e': "parse_techniques ?env (read_file ?env (?argv ! 1) @ newline) \<noteq> []"
    by (simp add: example_defs newline_def)
  have f': "find (\<lambda>r. \<not> compilation_success r)
             (concat (map (\<lambda>tech. map (compile_entry_point ?env
                                          (read_file ?env (?argv ! 1) @ newline)
                                          (?argv ! 1) tech)
                                     (entry_points tech))
                        (parse_techniques ?env (read_file ?env (?argv ! 1) @ newline))))
             = Some ?bad"
    by (simp add: example_defs newline_def compile_entry_point_def)
  from header_failure_precedes_output [OF a' b b' refl refl, of ?bad] d e' f'
  have "main ?env ?argv = ([Eprintf (error_message ?bad)], 1)"
    by blast
  with first show ?thesis by simp
qed

section \<open>The output loops\<close>

lemma process_resources_call_events:
  "fst (process_resources_call env smb remap rs dt st)
     = fst st @ [Process_resources rs dt smb remap]"
  by (simp add: process_resources_call_def split: prod.splits)

lemma feed_layout_events:
  "fst (feed_layout env ep remap resources c st)
     = (let smb = (if ep_kind ep = shaderc_vertex_shader
                   then STAGE_MASK_VERTEX else STAGE_MASK_FRAGMENT)
        in [Process_resources (uniform_buffers resources) UNIFORM_BUFFER smb remap,
            Process_resources (storage_buffers resources) STORAGE_BUFFER smb remap,
            Process_resources (separate_samplers resources) SAMPLER smb remap,
            Process_resources (separate_images resources) TEXTURE smb remap])"
proof -
  obtain res_layout images_to_cis samplers_to_cis
    where st: "st = (res_layout, images_to_cis, samplers_to_cis)"
    by (cases st)
  let ?smb = "if ep_kind ep = shaderc_vertex_shader
              then STAGE_MASK_VERTEX else STAGE_MASK_FRAGMENT"
  let ?r = "process_resources_call env ?smb remap (separate_images resources) TEXTURE
              (process_resources_call env ?smb remap (separate_samplers resources) SAMPLER
              (process_resources_call env ?smb remap (storage_buffers resources) STORAGE_BUFFER
              (process_resources_call env ?smb remap (uniform_buffers resources) UNIFORM_BUFFER
                 ([], res_layout, c))))"
  have "fst (feed_layout env ep remap resources c st) = fst ?r"
    by (simp add: feed_layout_def st Let_def split: prod.splits)
  also have "\<dots> = [Process_resources (uniform_buffers resources) UNIFORM_BUFFER ?smb remap,
            Process_resources (storage_buffers resources) STORAGE_BUFFER ?smb remap,
            Process_resources (separate_samplers resources) SAMPLER ?smb remap,
            Process_resources (separate_images resources) TEXTURE ?smb remap]"
    by (simp only: process_resources_call_events fst_conv append_Nil append_Cons append_assoc)
  finally show ?thesis by (simp add: Let_def)
qed

text \<open>
  One entry point: the calls on the compiler and on the layout builder, and then either
  the three operations on the file, or the diagnostic and the end of the run.
\<close>

lemma add_resources_fold:
  "add_resources env cis c (images_to_cis, samplers_to_cis)
     = (fold (\<lambda>t. add_resource env (image_id t) (combined_id t) c) cis images_to_cis,
        fold (\<lambda>t. add_resource env (sampler_id t) (combined_id t) c) cis samplers_to_cis)"
  by (induction cis arbitrary: images_to_cis samplers_to_cis) simp_all

lemma feed_layout_result:
  "snd (feed_layout env ep remap resources c (l, images_to_cis, samplers_to_cis))
     = (case fold (\<lambda>dt (l, c).
                     process_resources env (resources_of_kind resources dt) dt
                       (if ep_kind ep = shaderc_vertex_shader
                        then STAGE_MASK_VERTEX else STAGE_MASK_FRAGMENT)
                       remap c l)
               resource_kinds_in_order (l, c) of
          (l', c') \<Rightarrow>
            ((l',
              fold (\<lambda>t. add_resource env (image_id t) (combined_id t) c)
                (combined_image_samplers c) images_to_cis,
              fold (\<lambda>t. add_resource env (sampler_id t) (combined_id t) c)
                (combined_image_samplers c) samplers_to_cis),
             c'))"
  by (simp add: feed_layout_def process_resources_call_def resource_kinds_in_order_def
      add_resources_fold Let_def split: prod.splits)

lemma bind_combined_image_samplers_instance:
  "snd (bind_combined_image_samplers cis_set cis idx c)
     = c\<lparr>names := names_after (names c) cis,
         decorations := decorations_after cis_set idx (decorations c) cis\<rparr>"
  by (induction cis arbitrary: idx c)
    (simp_all add: Let_def split_beta set_name_def set_decoration_def get_name_def)

lemma prepared_instance_eq:
  "snd (bind_combined_image_samplers (AUTOGEN_CIS_DESCRIPTOR_SET env)
          (combined_image_samplers (create_cross_compiler env (spv_words r) ti)) 0
          (create_cross_compiler env (spv_words r) ti))
     = prepared_instance env ti r"
  by (simp add: bind_combined_image_samplers_instance prepared_instance_def
      create_cross_compiler_def Let_def)

lemma translate_entry_point_eq:
  "translate_entry_point env opts gpm ti tech ep r st =
     (if fopen_succeeds env (out_file_path_of env opts tech ep ti)
      then (entry_point_attempt env gpm ti ep r
              @ translated_files env opts gpm ti tech (\<lambda>e. r) [ep] st,
            Inr (layout_after env gpm ti ep r st))
      else (entry_point_attempt env gpm ti ep r
              @ [Eprintf (''Failed to open output file ''
                   @ out_file_path_of env opts tech ep ti @ newline)],
            Inl 1))"
proof -
  let ?c0 = "create_cross_compiler env (spv_words r) ti"
  let ?b = "bind_combined_image_samplers (AUTOGEN_CIS_DESCRIPTOR_SET env)
              (combined_image_samplers ?c0) 0 ?c0"
  let ?remap = "api ti = GL \<or> api ti = METAL"
  let ?res = "get_shader_resources env (cross_compiler_kind_of ti) (spv_words r)"
  obtain es0 c1 where b: "?b = (es0, c1)" by (cases ?b)
  with prepared_instance_eq[of env r ti] have c1: "c1 = prepared_instance env ti r" by simp
  let ?x = "if ?remap \<or> gpm then feed_layout env ep ?remap ?res c1 st
            else ([], st, c1)"
  have res: "shader_resources_of ?c0 = ?res"
    by (simp add: create_cross_compiler_def Let_def)
  have ev: "fst ?x = expected_process_calls env gpm ti ep r"
    by (simp add: feed_layout_events expected_process_calls_def resource_kinds_in_order_def
        Let_def)
  have st: "snd ?x = fed env gpm ti ep r st"
    by (cases st) (auto simp: fed_def feed_layout_result c1 prepared_instance_def)
  obtain es st' c2 where x: "?x = (es, st', c2)" by (cases ?x)
  from x ev have es: "es = expected_process_calls env gpm ti ep r" by simp
  from x st have fed: "fed env gpm ti ep r st = (st', c2)" by simp
  have "translate_entry_point env opts gpm ti tech ep r st
          = (if \<not> fopen_succeeds env (out_file_path_of env opts tech ep ti)
             then (es0 @ es @ [Eprintf (''Failed to open output file ''
                                  @ out_file_path_of env opts tech ep ti @ newline)], Inl 1)
             else (es0 @ es @ [Fopen (out_file_path_of env opts tech ep ti),
                               Fwrite (out_file_path_of env opts tech ep ti)
                                 (if api ti \<noteq> VULKAN then Text (compile env c2)
                                  else Words (spv_words r)),
                               Fclose (out_file_path_of env opts tech ep ti)],
                   Inr st'))"
    unfolding translate_entry_point_def Let_def res b prod.case x by (rule refl)
  with b es fed show ?thesis
    by (simp add: entry_point_attempt_def layout_after_def translated_instance_def Let_def)
qed

lemma entry_points_loop_ok:
  assumes "\<forall>ep \<in> set eps. fopen_succeeds env (out_file_path_of env opts tech ep ti)"
    and "spvs = pre @ map g eps @ post"
    and "idx = length pre"
  shows "entry_points_loop env opts gpm ti tech spvs eps (idx, st)
           = (entry_points_events env opts gpm ti tech g eps st,
              Inr (idx + length eps, layout_of_technique env gpm ti g eps st))"
  using assms
proof (induction eps arbitrary: pre idx st)
  case Nil
  show ?case by (simp add: layout_of_technique_def)
next
  case (Cons ep eps)
  from Cons.prems(2,3) have r: "spvs ! idx = g ep" by simp
  from Cons.prems(2) have "spvs = (pre @ [g ep]) @ map g eps @ post" by simp
  moreover from Cons.prems(3) have "Suc idx = length (pre @ [g ep])" by simp
  moreover from Cons.prems(1)
  have "\<forall>ep \<in> set eps. fopen_succeeds env (out_file_path_of env opts tech ep ti)" by simp
  ultimately have
    "entry_points_loop env opts gpm ti tech spvs eps (Suc idx, st')
       = (entry_points_events env opts gpm ti tech g eps st',
          Inr (Suc idx + length eps, layout_of_technique env gpm ti g eps st'))" for st'
    by (rule Cons.IH[rotated])
  with Cons.prems(1) r show ?case
    by (simp add: translate_entry_point_eq io_bind_def layout_of_technique_def)
qed

lemma entry_points_loop_fail:
  assumes "\<not> (\<forall>ep \<in> set eps. fopen_succeeds env (out_file_path_of env opts tech ep ti))"
    and "spvs = pre @ map g eps @ post"
    and "idx = length pre"
  shows "\<exists>xs m. entry_points_loop env opts gpm ti tech spvs eps (idx, st)
                   = (xs @ [Eprintf m], Inl 1)
               \<and> prefix xs (entry_points_events env opts gpm ti tech g eps st)"
  using assms
proof (induction eps arbitrary: pre idx st)
  case Nil
  then show ?case by simp
next
  case (Cons ep eps)
  from Cons.prems(2,3) have r: "spvs ! idx = g ep" by simp
  show ?case
  proof (cases "fopen_succeeds env (out_file_path_of env opts tech ep ti)")
    case False
    with r show ?thesis
      by (simp add: translate_entry_point_eq io_bind_def)
  next
    case True
    let ?st = "layout_after env gpm ti ep (g ep) st"
    from Cons.prems(2) have "spvs = (pre @ [g ep]) @ map g eps @ post" by simp
    moreover from Cons.prems(3) have "Suc idx = length (pre @ [g ep])" by simp
    moreover from Cons.prems(1) True
    have "\<not> (\<forall>ep \<in> set eps. fopen_succeeds env (out_file_path_of env opts tech ep ti))"
      by simp
    ultimately obtain xs m
      where "entry_points_loop env opts gpm ti tech spvs eps (Suc idx, ?st)
               = (xs @ [Eprintf m], Inl 1)"
        and "prefix xs (entry_points_events env opts gpm ti tech g eps ?st)"
      using Cons.IH[of "pre @ [g ep]" "Suc idx" ?st] by blast
    with True r show ?thesis
      by (auto simp: translate_entry_point_eq io_bind_def
          intro!: exI[of _ "entry_point_attempt env gpm ti ep (g ep)
                              @ translated_files env opts gpm ti tech g [ep] st @ xs"])
  qed
qed

lemma techniques_loop_ok:
  assumes "\<forall>tech \<in> set techs. \<forall>ep \<in> set (entry_points tech).
             fopen_succeeds env (out_file_path_of env opts tech ep ti)"
    and "spvs = pre @ concat (map (\<lambda>tech. map (g tech) (entry_points tech)) techs) @ post"
    and "idx = length pre"
  shows "techniques_loop env opts gpm ti spvs techs idx
           = (concat (map (technique_events env opts gpm ti g) techs),
              Inr (idx + length (concat (map entry_points techs))))"
  using assms
proof (induction techs arbitrary: pre idx)
  case Nil
  show ?case by simp
next
  case (Cons tech techs)
  let ?eps = "entry_points tech"
  let ?post = "concat (map (\<lambda>tech. map (g tech) (entry_points tech)) techs) @ post"
  from Cons.prems(1)
  have "\<forall>ep \<in> set ?eps. fopen_succeeds env (out_file_path_of env opts tech ep ti)" by simp
  moreover from Cons.prems(2) have "spvs = pre @ map (g tech) ?eps @ ?post" by simp
  ultimately have eps: "entry_points_loop env opts gpm ti tech spvs ?eps (idx, st)
      = (entry_points_events env opts gpm ti tech (g tech) ?eps st,
         Inr (idx + length ?eps, layout_of_technique env gpm ti (g tech) ?eps st))" for st
    using Cons.prems(3) by (rule entry_points_loop_ok)
  from Cons.prems(1)
  have "\<forall>tech \<in> set techs. \<forall>ep \<in> set (entry_points tech).
          fopen_succeeds env (out_file_path_of env opts tech ep ti)" by simp
  moreover from Cons.prems(2)
  have "spvs = (pre @ map (g tech) ?eps)
                 @ concat (map (\<lambda>tech. map (g tech) (entry_points tech)) techs) @ post"
    by simp
  moreover from Cons.prems(3) have "idx + length ?eps = length (pre @ map (g tech) ?eps)"
    by simp
  ultimately have rest: "techniques_loop env opts gpm ti spvs techs (idx + length ?eps)
      = (concat (map (technique_events env opts gpm ti g) techs),
         Inr (idx + length ?eps + length (concat (map entry_points techs))))"
    by (rule Cons.IH)
  show ?case
    by (simp add: eps[unfolded new_layout_def] rest io_bind_def technique_events_def[of env opts _ ti g tech]
        new_layout_def)
qed

lemma techniques_loop_fail:
  assumes "\<not> (\<forall>tech \<in> set techs. \<forall>ep \<in> set (entry_points tech).
                fopen_succeeds env (out_file_path_of env opts tech ep ti))"
    and "spvs = pre @ concat (map (\<lambda>tech. map (g tech) (entry_points tech)) techs) @ post"
    and "idx = length pre"
  shows "\<exists>xs m. techniques_loop env opts gpm ti spvs techs idx = (xs @ [Eprintf m], Inl 1)
               \<and> prefix xs (concat (map (technique_events env opts gpm ti g) techs))"
  using assms
proof (induction techs arbitrary: pre idx)
  case Nil
  then show ?case by simp
next
  case (Cons tech techs)
  let ?eps = "entry_points tech"
  let ?post = "concat (map (\<lambda>tech. map (g tech) (entry_points tech)) techs) @ post"
  from Cons.prems(2) have spvs: "spvs = pre @ map (g tech) ?eps @ ?post" by simp
  show ?case
  proof (cases "\<forall>ep \<in> set ?eps. fopen_succeeds env (out_file_path_of env opts tech ep ti)")
    case False
    from this spvs Cons.prems(3) obtain xs m
      where "entry_points_loop env opts gpm ti tech spvs ?eps (idx, new_layout env)
               = (xs @ [Eprintf m], Inl 1)"
        and "prefix xs (entry_points_events env opts gpm ti tech (g tech) ?eps (new_layout env))"
      using entry_points_loop_fail[of ?eps env opts tech ti spvs pre "g tech" ?post idx gpm
          "new_layout env"]
      by blast
    then show ?thesis
      by (auto simp: io_bind_def technique_events_def[of env opts _ ti g tech] new_layout_def intro!: exI[of _ xs])
  next
    case True
    from True spvs Cons.prems(3)
    have eps: "entry_points_loop env opts gpm ti tech spvs ?eps (idx, st)
        = (entry_points_events env opts gpm ti tech (g tech) ?eps st,
           Inr (idx + length ?eps, layout_of_technique env gpm ti (g tech) ?eps st))" for st
      by (rule entry_points_loop_ok)
    from Cons.prems(1) True
    have "\<not> (\<forall>tech \<in> set techs. \<forall>ep \<in> set (entry_points tech).
                fopen_succeeds env (out_file_path_of env opts tech ep ti))" by simp
    moreover from Cons.prems(2)
    have "spvs = (pre @ map (g tech) ?eps)
                   @ concat (map (\<lambda>tech. map (g tech) (entry_points tech)) techs) @ post"
      by simp
    moreover from Cons.prems(3) have "idx + length ?eps = length (pre @ map (g tech) ?eps)"
      by simp
    ultimately obtain xs m
      where "techniques_loop env opts gpm ti spvs techs (idx + length ?eps)
               = (xs @ [Eprintf m], Inl 1)"
        and "prefix xs (concat (map (technique_events env opts gpm ti g) techs))"
      using Cons.IH[of "pre @ map (g tech) ?eps" "idx + length ?eps"] by blast
    then show ?thesis
      by (auto simp: eps[unfolded new_layout_def] io_bind_def new_layout_def
          intro!: exI[of _ "technique_events env opts gpm ti g tech @ xs"])
        (simp_all add: technique_events_def[of env opts _ ti g tech] new_layout_def)
  qed
qed

text \<open>
  The loop over the targets, for the modules as the front end left them: when every file
  of every target can be opened the loop ends and its events are those of the targets one
  after another; otherwise the run stops with a diagnostic, after events that are the
  first of those.
\<close>

lemma targets_loop_ok:
  assumes "\<forall>ti \<in> set tis. openable env opts techs ti"
    and "spvs = concat (map (\<lambda>tech. map (g tech) (entry_points tech)) techs)"
  shows "targets_loop env opts techs spvs gpm tis
           = ((case tis of
                 [] \<Rightarrow> []
               | ti # rest \<Rightarrow>
                   concat (map (technique_events env opts gpm ti g) techs)
                   @ concat (map (\<lambda>ti. concat (map (technique_events env opts False ti g) techs))
                               rest)),
              Inr ())"
  using assms(1)
proof (induction tis arbitrary: gpm)
  case Nil
  show ?case by simp
next
  case (Cons ti tis)
  from Cons.prems have "\<forall>tech \<in> set techs. \<forall>ep \<in> set (entry_points tech).
                          fopen_succeeds env (out_file_path_of env opts tech ep ti)"
    by (simp add: openable_def)
  moreover from assms(2)
  have "spvs = [] @ concat (map (\<lambda>tech. map (g tech) (entry_points tech)) techs) @ []" by simp
  ultimately have "techniques_loop env opts gpm ti spvs techs 0
      = (concat (map (technique_events env opts gpm ti g) techs),
         Inr (0 + length (concat (map entry_points techs))))"
    by (rule techniques_loop_ok) simp
  moreover from Cons.prems have "\<forall>ti \<in> set tis. openable env opts techs ti" by simp
  from Cons.IH[OF this, of False]
  have "targets_loop env opts techs spvs False tis
          = (concat (map (\<lambda>ti. concat (map (technique_events env opts False ti g) techs)) tis),
             Inr ())"
    by (cases tis) simp_all
  ultimately show ?case by (simp add: io_bind_def)
qed

lemma targets_loop_fail:
  assumes "\<not> (\<forall>ti \<in> set tis. openable env opts techs ti)"
    and "spvs = concat (map (\<lambda>tech. map (g tech) (entry_points tech)) techs)"
  shows "\<exists>xs m. targets_loop env opts techs spvs gpm tis = (xs @ [Eprintf m], Inl 1)
               \<and> prefix xs
                   (case tis of
                      [] \<Rightarrow> []
                    | ti # rest \<Rightarrow>
                        concat (map (technique_events env opts gpm ti g) techs)
                        @ concat (map (\<lambda>ti. concat (map (technique_events env opts False ti g)
                                                       techs))
                                    rest))"
  using assms(1)
proof (induction tis arbitrary: gpm)
  case Nil
  then show ?case by simp
next
  case (Cons ti tis)
  from assms(2)
  have spvs: "spvs = [] @ concat (map (\<lambda>tech. map (g tech) (entry_points tech)) techs) @ []"
    by simp
  show ?case
  proof (cases "openable env opts techs ti")
    case False
    then have "\<not> (\<forall>tech \<in> set techs. \<forall>ep \<in> set (entry_points tech).
                     fopen_succeeds env (out_file_path_of env opts tech ep ti))"
      by (simp add: openable_def)
    from techniques_loop_fail[OF this spvs, of 0 gpm] obtain xs m
      where "techniques_loop env opts gpm ti spvs techs 0 = (xs @ [Eprintf m], Inl 1)"
        and "prefix xs (concat (map (technique_events env opts gpm ti g) techs))"
      by auto
    then show ?thesis
      by (auto simp: io_bind_def intro!: exI[of _ xs])
  next
    case True
    then have "\<forall>tech \<in> set techs. \<forall>ep \<in> set (entry_points tech).
                 fopen_succeeds env (out_file_path_of env opts tech ep ti)"
      by (simp add: openable_def)
    from this spvs have t: "techniques_loop env opts gpm ti spvs techs 0
        = (concat (map (technique_events env opts gpm ti g) techs),
           Inr (0 + length (concat (map entry_points techs))))"
      by (rule techniques_loop_ok) simp
    from Cons.prems True have "\<not> (\<forall>ti \<in> set tis. openable env opts techs ti)" by simp
    from Cons.IH[OF this, of False] obtain xs m
      where l: "targets_loop env opts techs spvs False tis = (xs @ [Eprintf m], Inl 1)"
        and "prefix xs
               (case tis of
                  [] \<Rightarrow> []
                | ti # rest \<Rightarrow>
                    concat (map (technique_events env opts False ti g) techs)
                    @ concat (map (\<lambda>ti. concat (map (technique_events env opts False ti g)
                                                   techs))
                                rest))"
      by blast
    then have "prefix xs
                 (concat (map (\<lambda>ti. concat (map (technique_events env opts False ti g) techs))
                            tis))"
      by (cases tis) simp_all
    with t l show ?thesis
      by (auto simp: io_bind_def
          intro!: exI[of _ "concat (map (technique_events env opts gpm ti g) techs) @ xs"])
  qed
qed

section \<open>The whole run\<close>

lemma find_failed_None:
  "find (\<lambda>r. \<not> compilation_success r)
     (concat (map (\<lambda>tech. map (g tech) (entry_points tech)) techs)) = None
   \<longleftrightarrow> (\<forall>tech \<in> set techs. \<forall>ep \<in> set (entry_points tech). compilation_success (g tech ep))"
  by (auto simp: find_None_iff)

text \<open>
  A run with accepted options either goes through, and its events are the construction of
  the header writer and the events of the output loops, with exit code 0; or its exit
  code is 1 and its events are some of these, from the first on, and one diagnostic.
\<close>

lemma run_completes:
  assumes "completes env path opts"
    and "src = read_file env path @ newline"
  shows "run env path opts
           = (Header_file_writer (out_folder opts) (header_path opts) (header_namespace opts)
              # output_events env opts (compile_entry_point env src path)
                  (parse_techniques env src) (sort_targets env (targets opts)),
              0)"
proof -
  let ?g = "compile_entry_point env src path"
  let ?techs = "parse_techniques env src"
  from assms(1) have c: "compile_techniques env src path ?techs []
      = ([], Inr (concat (map (\<lambda>tech. map (?g tech) (entry_points tech)) ?techs)))"
    using find_failed_None[of ?g ?techs, THEN iffD2]
    by (simp add: compile_techniques_eq completes_def assms(2)[symmetric])
  from assms(1) have "\<forall>ti \<in> set (sort_targets env (targets opts)). openable env opts ?techs ti"
    by (simp add: completes_def assms(2)[symmetric])
  from targets_loop_ok[OF this refl, of ?g True]
  have l: "targets_loop env opts ?techs
             (concat (map (\<lambda>tech. map (?g tech) (entry_points tech)) ?techs)) True
             (sort_targets env (targets opts))
           = (output_events env opts ?g ?techs (sort_targets env (targets opts)), Inr ())"
    by (simp add: output_events_def over_targets_def)
  from assms(1) show ?thesis
    by (auto simp: run_def Let_def c l io_bind_def completes_def assms(2)[symmetric])
qed

lemma run_stops:
  assumes "\<not> completes env path opts"
    and "src = read_file env path @ newline"
  shows "snd (run env path opts) = 1
         \<and> (\<exists>xs m. fst (run env path opts) = xs @ [Eprintf m]
                \<and> prefix xs
                    (Header_file_writer (out_folder opts) (header_path opts)
                       (header_namespace opts)
                     # output_events env opts (compile_entry_point env src path)
                         (parse_techniques env src) (sort_targets env (targets opts))))"
proof -
  let ?g = "compile_entry_point env src path"
  let ?techs = "parse_techniques env src"
  let ?spvs = "concat (map (\<lambda>tech. map (?g tech) (entry_points tech)) ?techs)"
  let ?hdr = "Header_file_writer (out_folder opts) (header_path opts) (header_namespace opts)"
  let ?out = "output_events env opts ?g ?techs (sort_targets env (targets opts))"
  have goal: "snd (run env path opts) = 1
         \<and> (\<exists>xs m. fst (run env path opts) = xs @ [Eprintf m] \<and> prefix xs (?hdr # ?out))"
    if "run env path opts = (xs @ [Eprintf m], 1)" "prefix xs (?hdr # ?out)" for xs m
    using that by auto
  consider (targets) "targets opts = []"
    | (techs) "targets opts \<noteq> []" "?techs = []"
    | (compile) r where "targets opts \<noteq> []" "?techs \<noteq> []"
        "find (\<lambda>r. \<not> compilation_success r) ?spvs = Some r"
    | (header) "targets opts \<noteq> []" "?techs \<noteq> []"
        "find (\<lambda>r. \<not> compilation_success r) ?spvs = None"
        "header_path opts \<noteq> []" "\<not> header_is_open env (out_folder opts) (header_path opts)"
    | (loops) "targets opts \<noteq> []" "?techs \<noteq> []"
        "find (\<lambda>r. \<not> compilation_success r) ?spvs = None"
        "header_path opts = [] \<or> header_is_open env (out_folder opts) (header_path opts)"
    by (cases "find (\<lambda>r. \<not> compilation_success r) ?spvs") auto
  then show ?thesis
  proof cases
    case targets
    show ?thesis
      by (rule goal[of "[]" no_targets_message]) (simp_all add: run_def targets)
  next
    case techs
    show ?thesis
      by (rule goal[of "[]" no_techniques_message])
        (use techs in \<open>simp_all add: run_def assms(2)[symmetric]\<close>)
  next
    case compile
    show ?thesis
      by (rule goal[of "[]" "error_message r"])
        (use compile in
          \<open>simp_all add: run_def Let_def compile_techniques_eq io_bind_def
              assms(2)[symmetric]\<close>)
  next
    case header
    show ?thesis
      by (rule goal[of "[?hdr]"
            "''Failed to open output file ''
               @ header_writer_path env (out_folder opts) (header_path opts) @ newline"])
        (use header in
          \<open>simp_all add: run_def Let_def compile_techniques_eq io_bind_def
              assms(2)[symmetric]\<close>)
  next
    case loops
    with assms(1) have "\<not> (\<forall>ti \<in> set (sort_targets env (targets opts)).
                          openable env opts ?techs ti)"
      using find_failed_None[of ?g ?techs]
      by (auto simp: completes_def assms(2)[symmetric])
    from targets_loop_fail[OF this refl, of ?g True] obtain xs m
      where l: "targets_loop env opts ?techs ?spvs True (sort_targets env (targets opts))
                  = (xs @ [Eprintf m], Inl 1)"
        and p: "prefix xs ?out"
      by (auto simp: output_events_def over_targets_def)
    show ?thesis
      by (rule goal[of "?hdr # xs" m])
        (use loops l p in
          \<open>auto simp: run_def Let_def compile_techniques_eq io_bind_def
              assms(2)[symmetric]\<close>)
  qed
qed

lemma main_exit_code:
  assumes "2 \<le> length argv"
    and "snd (process_options (TARGET_MAP env) (drop 2 argv) default_options) = Inr opts"
  shows "snd (main env argv) = 0 \<longleftrightarrow> completes env (argv ! 1) opts"
proof -
  from assms have "main env argv = run env (argv ! 1) opts" by (rule main_accepted)
  then show ?thesis
    using run_completes[OF _ refl, of env "argv ! 1" opts]
      run_stops[OF _ refl, of env "argv ! 1" opts]
    by (cases "completes env (argv ! 1) opts") simp_all
qed

lemma prefix_concat_map:
  "prefix xs ys \<Longrightarrow> prefix (concat (map f xs)) (concat (map f ys))"
  by (auto simp: prefix_def)

text \<open>
  A view of a run is what a function \<open>proj\<close> keeps of each event. When the view keeps
  nothing of the diagnostics and of the construction of the header writer, the view of any
  run with an accepted command line is the beginning of the view of the output loops, and
  the whole of it when the exit code is 0.
\<close>

lemma main_view:
  fixes proj :: "event \<Rightarrow> 'a list"
  assumes "2 \<le> length argv"
    and "snd (process_options (TARGET_MAP env) (drop 2 argv) default_options) = Inr opts"
    and "src = read_file env (argv ! 1) @ newline"
    and "\<And>m. proj (Eprintf m) = []"
    and "\<And>a b c. proj (Header_file_writer a b c) = []"
  shows "prefix (concat (map proj (fst (main env argv))))
           (concat (map proj (output_events env opts (compile_entry_point env src (argv ! 1))
                                (parse_techniques env src) (sort_targets env (targets opts)))))
         \<and> (snd (main env argv) = 0
              \<longrightarrow> concat (map proj (fst (main env argv)))
                    = concat (map proj (output_events env opts
                                          (compile_entry_point env src (argv ! 1))
                                          (parse_techniques env src)
                                          (sort_targets env (targets opts)))))"
proof -
  let ?out = "output_events env opts (compile_entry_point env src (argv ! 1))
                (parse_techniques env src) (sort_targets env (targets opts))"
  let ?hdr = "Header_file_writer (out_folder opts) (header_path opts) (header_namespace opts)"
  from assms(1,2) have m: "main env argv = run env (argv ! 1) opts" by (rule main_accepted)
  show ?thesis
  proof (cases "completes env (argv ! 1) opts")
    case True
    from run_completes[OF True assms(3)] m show ?thesis by (simp add: assms(4,5))
  next
    case False
    from run_stops[OF False assms(3)] m obtain xs msg
      where "snd (main env argv) = 1" "fst (main env argv) = xs @ [Eprintf msg]"
        "prefix xs (?hdr # ?out)"
      by auto
    moreover from this(3) have "prefix (concat (map proj xs)) (concat (map proj (?hdr # ?out)))"
      by (rule prefix_concat_map)
    ultimately show ?thesis by (simp add: assms(4,5))
  qed
qed

lemma filter_as_view: "filter P xs = concat (map (\<lambda>x. if P x then [x] else []) xs)"
  by (induction xs) simp_all

lemma main_filter:
  assumes "2 \<le> length argv"
    and "snd (process_options (TARGET_MAP env) (drop 2 argv) default_options) = Inr opts"
    and "src = read_file env (argv ! 1) @ newline"
    and "\<And>m. \<not> P (Eprintf m)"
    and "\<And>a b c. \<not> P (Header_file_writer a b c)"
  shows "prefix (filter P (fst (main env argv)))
           (filter P (output_events env opts (compile_entry_point env src (argv ! 1))
                        (parse_techniques env src) (sort_targets env (targets opts))))
         \<and> (snd (main env argv) = 0
              \<longrightarrow> filter P (fst (main env argv))
                    = filter P (output_events env opts (compile_entry_point env src (argv ! 1))
                                  (parse_techniques env src)
                                  (sort_targets env (targets opts))))"
  using main_view[of argv env opts src "\<lambda>x. if P x then [x] else []", OF assms(1-3)]
    assms(4,5)
  by (simp add: filter_as_view[symmetric])

section \<open>What the output loops do, view by view\<close>

lemmas run_defs = main_def run_def default_options_def sort_targets_def newline_def
  io_bind_def translate_entry_point_def feed_layout_def process_resources_call_def
  create_cross_compiler_def cross_compiler_kind_of_def compile_entry_point_def
  out_file_path_of_def set_name_def get_name_def set_decoration_def Let_def
  write_pipeline_metadata_def write_descriptor_set_def

lemma output_events_filter:
  "filter P (output_events env opts g techs tis)
     = over_targets (\<lambda>gpm ti. concat (map (\<lambda>tech. filter P (technique_events env opts gpm ti g tech))
                                       techs))
         tis"
  by (simp add: output_events_def over_targets_def filter_concat comp_def split: list.splits)


lemma bind_combined_image_samplers_filter:
  assumes "\<And>i n. P (Set_name i n) = b" and "\<And>i d v. P (Set_decoration i d v) = b"
  shows "filter P (fst (bind_combined_image_samplers cis_set cis idx c))
           = (if b then fst (bind_combined_image_samplers cis_set cis idx c) else [])"
  by (induction cis arbitrary: idx c) (simp_all add: assms Let_def split_beta)

lemma expected_process_calls_filter:
  assumes "\<And>rs dt smb remap. P (Process_resources rs dt smb remap) = b"
  shows "filter P (expected_process_calls env gpm ti ep r)
           = (if b then expected_process_calls env gpm ti ep r else [])"
  by (simp add: expected_process_calls_def resource_kinds_in_order_def assms)

lemma write_pipeline_metadata_filter_none:
  assumes "\<And>n. \<not> P (Write_field n)" "\<And>t. \<not> P (Write_type_field t)"
    "\<And>d s. \<not> P (Write_descriptor d s)" "\<And>s. \<not> P (Write_raw_bytes s)"
    "\<not> P Start_new_record" "\<not> P End_technique" "\<not> P Finalize"
    "\<And>n. \<not> P (Begin_technique n)" "\<And>p. \<not> P (Pipeline_metadata_file p)"
  shows "filter P (write_pipeline_metadata env opts tech st) = []"
  by (simp add: write_pipeline_metadata_def write_descriptor_set_def Let_def assms
      filter_concat filter_map comp_def split: prod.splits)

subsection \<open>The calls on the layout builder\<close>

lemma entry_points_events_process_calls:
  "filter is_process_resources (entry_points_events env opts gpm ti tech g eps st)
     = concat (map (\<lambda>ep. expected_process_calls env gpm ti ep (g ep)) eps)"
  by (induction eps arbitrary: st)
    (simp_all add: entry_point_attempt_def Let_def
      bind_combined_image_samplers_filter[where b = False]
      expected_process_calls_filter[where b = True])

lemma technique_events_process_calls:
  "filter is_process_resources (technique_events env opts gpm ti g tech)
     = concat (map (\<lambda>ep. expected_process_calls env gpm ti ep (g tech ep)) (entry_points tech))"
  by (simp add: technique_events_def entry_points_events_process_calls
      write_pipeline_metadata_filter_none)

lemma output_events_process_calls:
  "filter is_process_resources (output_events env opts g techs tis)
     = over_targets
         (\<lambda>gpm ti. over_entry_points (\<lambda>tech ep. expected_process_calls env gpm ti ep (g tech ep))
                      techs)
         tis"
  by (simp add: output_events_filter technique_events_process_calls over_entry_points_def)

text \<open>
  Claim C4. The calls on the pipeline layout builder are, in this order: for each target
  in processing order, for each technique in the order of the parser's list, for each
  entry point in the order of the technique's list, and provided the layout is fed for
  that entry point (the target is remapped, or the metadata is being generated), one call
  per resource kind in the order \<open>UNIFORM_BUFFER\<close>, \<open>STORAGE_BUFFER\<close>, \<open>SAMPLER\<close>,
  \<open>TEXTURE\<close>, each with the list that reflection of the entry point's module returns for
  that kind, unchanged. A run that completes makes all of these calls; a run that stops
  early has made the first of them.
\<close>

theorem layout_fed_in_fixed_order:
  assumes "2 \<le> length argv"
    and "snd (process_options (TARGET_MAP env) (drop 2 argv) default_options) = Inr opts"
    and "src = read_file env (argv ! 1) @ newline"
    and "calls = over_targets
                   (\<lambda>gpm ti. over_entry_points
                      (\<lambda>tech ep. expected_process_calls env gpm ti ep
                                    (compile_entry_point env src (argv ! 1) tech ep))
                      (parse_techniques env src))
                   (sort_targets env (targets opts))"
  shows "prefix (filter is_process_resources (fst (main env argv))) calls
         \<and> (snd (main env argv) = 0
              \<longrightarrow> filter is_process_resources (fst (main env argv)) = calls)"
  using main_filter[of argv env opts src is_process_resources, OF assms(1-3)]
  by (simp add: output_events_process_calls assms(4))

theorem layout_fed_in_fixed_order_witness:
  "filter is_process_resources
     (fst (main example_env [''ngf_shaderc'', ''in.hlsl'', ''-t'', ''spv'', ''-t'', ''gl430'']))
     = [Process_resources [\<lparr>res_id = 5, res_name = ''globals''\<rparr>] UNIFORM_BUFFER
          STAGE_MASK_VERTEX True,
        Process_resources [] STORAGE_BUFFER STAGE_MASK_VERTEX True,
        Process_resources [\<lparr>res_id = 21, res_name = ''point_smp''\<rparr>] SAMPLER
          STAGE_MASK_VERTEX True,
        Process_resources [\<lparr>res_id = 20, res_name = ''heightmap''\<rparr>] TEXTURE
          STAGE_MASK_VERTEX True,
        Process_resources [\<lparr>res_id = 5, res_name = ''globals''\<rparr>] UNIFORM_BUFFER
          STAGE_MASK_FRAGMENT True,
        Process_resources [] STORAGE_BUFFER STAGE_MASK_FRAGMENT True,
        Process_resources [\<lparr>res_id = 11, res_name = ''linear_smp''\<rparr>] SAMPLER
          STAGE_MASK_FRAGMENT True,
        Process_resources [\<lparr>res_id = 10, res_name = ''albedo''\<rparr>] TEXTURE
          STAGE_MASK_FRAGMENT True]"
proof -
  let ?argv = "[''ngf_shaderc'', ''in.hlsl'', ''-t'', ''spv'', ''-t'', ''gl430'']"
  let ?opts = "default_options\<lparr>targets := [snd (example_target_map ! 11),
                                            snd (example_target_map ! 0)]\<rparr>"
  have a: "2 \<le> length ?argv" by simp
  have b: "snd (main example_env ?argv) = 0"
    by (simp add: run_defs example_defs)
  have c: "snd (process_options (TARGET_MAP example_env) (drop 2 ?argv) default_options)
             = Inr ?opts"
    by (simp add: example_defs default_options_def)
  from layout_fed_in_fixed_order [OF a c refl refl] b
  have "filter is_process_resources (fst (main example_env ?argv))
          = over_targets
              (\<lambda>gpm ti. over_entry_points
                 (\<lambda>tech ep. expected_process_calls example_env gpm ti ep
                               (compile_entry_point example_env
                                  (read_file example_env (?argv ! 1) @ newline) (?argv ! 1)
                                  tech ep))
                 (parse_techniques example_env (read_file example_env (?argv ! 1) @ newline)))
              (sort_targets example_env (targets ?opts))"
    by blast
  then show ?thesis
    by (simp add: over_targets_def over_entry_points_def expected_process_calls_def
        resource_kinds_in_order_def example_defs sort_targets_def default_options_def
        newline_def compile_entry_point_def cross_compiler_kind_of_def)
qed

subsection \<open>The calls that rename and bind the combined samplers\<close>

lemma bind_combined_image_samplers_events:
  "fst (bind_combined_image_samplers cis_set cis idx c)
     = concat (map (\<lambda>k. [Set_name (combined_id (cis ! k))
                            (names_after (names c) (take k cis) (image_id (cis ! k)) @ ''_''
                               @ names_after (names c) (take k cis) (sampler_id (cis ! k))),
                          Set_decoration (combined_id (cis ! k)) DecorationBinding (idx + k),
                          Set_decoration (combined_id (cis ! k)) DecorationDescriptorSet
                            cis_set])
                 [0 ..< length cis])"
proof (induction cis arbitrary: idx c)
  case Nil
  show ?case by simp
next
  case (Cons t ts)
  let ?n = "names c (image_id t) @ ''_'' @ names c (sampler_id t)"
  let ?c = "set_decoration
              (set_decoration (set_name c (combined_id t) ?n)
                 (combined_id t) DecorationBinding idx)
              (combined_id t) DecorationDescriptorSet cis_set"
  have names: "names ?c = (names c)(combined_id t := ?n)"
    by (simp add: set_decoration_def set_name_def)
  have upt: "[0 ..< length (t # ts)] = 0 # map Suc [0 ..< length ts]"
    by (simp add: upt_conv_Cons map_Suc_upt del: upt_Suc)
  have "fst (bind_combined_image_samplers cis_set (t # ts) idx c)
          = [Set_name (combined_id t) ?n,
             Set_decoration (combined_id t) DecorationBinding idx,
             Set_decoration (combined_id t) DecorationDescriptorSet cis_set]
            @ fst (bind_combined_image_samplers cis_set ts (Suc idx) ?c)"
    by (simp add: Let_def split_beta get_name_def)
  also have "fst (bind_combined_image_samplers cis_set ts (Suc idx) ?c)
          = concat (map (\<lambda>k. [Set_name (combined_id (ts ! k))
                            (names_after (names ?c) (take k ts) (image_id (ts ! k)) @ ''_''
                               @ names_after (names ?c) (take k ts) (sampler_id (ts ! k))),
                          Set_decoration (combined_id (ts ! k)) DecorationBinding (Suc idx + k),
                          Set_decoration (combined_id (ts ! k)) DecorationDescriptorSet
                            cis_set])
                 [0 ..< length ts])"
    by (rule Cons.IH)
  finally show ?case
    unfolding upt names by (simp add: comp_def)
qed

lemma entry_point_attempt_combined_sampler_calls:
  "filter is_combined_sampler_call (entry_point_attempt env gpm ti ep r)
     = expected_combined_sampler_calls env ti r"
  by (simp add: entry_point_attempt_def Let_def
      bind_combined_image_samplers_filter[where b = True]
      expected_process_calls_filter[where b = False]
      bind_combined_image_samplers_events expected_combined_sampler_calls_def
      combined_sampler_calls_def create_cross_compiler_def)

lemma entry_points_events_combined_sampler_calls:
  "filter is_combined_sampler_call (entry_points_events env opts gpm ti tech g eps st)
     = concat (map (\<lambda>ep. expected_combined_sampler_calls env ti (g ep)) eps)"
  by (induction eps arbitrary: st)
    (simp_all add: entry_point_attempt_combined_sampler_calls)

lemma technique_events_combined_sampler_calls:
  "filter is_combined_sampler_call (technique_events env opts gpm ti g tech)
     = concat (map (\<lambda>ep. expected_combined_sampler_calls env ti (g tech ep))
                 (entry_points tech))"
  by (simp add: technique_events_def entry_points_events_combined_sampler_calls
      write_pipeline_metadata_filter_none)

lemma output_events_combined_sampler_calls:
  "filter is_combined_sampler_call (output_events env opts g techs tis)
     = over_targets
         (\<lambda>gpm ti. over_entry_points
            (\<lambda>tech ep. expected_combined_sampler_calls env ti (g tech ep)) techs)
         tis"
  by (simp add: output_events_filter technique_events_combined_sampler_calls
      over_entry_points_def)

text \<open>
  Claim C1, as the code has it. The calls that rename and bind combined samplers are, for
  each target in processing order, each technique and each of its entry points in order,
  and each tuple \<open>{image_id, sampler_id, combined_id}\<close> that reflection of the entry point's
  module returns under the compiler of the target, at position \<open>k\<close> of that list:
  \<^verbatim>\<open>set_name\<close> of the combined resource to the name of the image, an underscore and the
  name of the sampler; \<^verbatim>\<open>set_decoration\<close> of its binding to \<open>k\<close>; \<^verbatim>\<open>set_decoration\<close> of its
  descriptor set to \<^verbatim>\<open>AUTOGEN_CIS_DESCRIPTOR_SET\<close>. The index starts at 0 for every entry
  point and increases by one from tuple to tuple. A run that completes makes all of these
  calls; a run that stops early has made the first of them.
\<close>

theorem combined_samplers_renamed_and_bound:
  assumes "2 \<le> length argv"
    and "snd (process_options (TARGET_MAP env) (drop 2 argv) default_options) = Inr opts"
    and "src = read_file env (argv ! 1) @ newline"
    and "calls = over_targets
                   (\<lambda>gpm ti. over_entry_points
                      (\<lambda>tech ep. expected_combined_sampler_calls env ti
                                    (compile_entry_point env src (argv ! 1) tech ep))
                      (parse_techniques env src))
                   (sort_targets env (targets opts))"
  shows "prefix (filter is_combined_sampler_call (fst (main env argv))) calls
         \<and> (snd (main env argv) = 0
              \<longrightarrow> filter is_combined_sampler_call (fst (main env argv)) = calls)"
  using main_filter[of argv env opts src is_combined_sampler_call, OF assms(1-3)]
  by (simp add: output_events_combined_sampler_calls assms(4))

lemma example_two_gl430_completes:
  "completes example_env ''two.hlsl''
     (default_options\<lparr>targets := [snd (example_target_map ! 0)]\<rparr>)"
  by (simp add: completes_def openable_def example_defs sort_targets_def newline_def
      compile_entry_point_def out_file_path_of_def default_options_def)

theorem combined_samplers_renamed_and_bound_witness:
  "filter is_combined_sampler_call
     (fst (main example_env [''ngf_shaderc'', ''two.hlsl'', ''-t'', ''gl430'']))
     = [Set_name 22 ''heightmap_point_smp'',
        Set_decoration 22 DecorationBinding 0, Set_decoration 22 DecorationDescriptorSet 9,
        Set_name 12 ''albedo_linear_smp'',
        Set_decoration 12 DecorationBinding 0, Set_decoration 12 DecorationDescriptorSet 9,
        Set_name 33 ''normals_clamp_smp'',
        Set_decoration 33 DecorationBinding 0, Set_decoration 33 DecorationDescriptorSet 9,
        Set_name 34 ''shadows_clamp_smp'',
        Set_decoration 34 DecorationBinding 1, Set_decoration 34 DecorationDescriptorSet 9,
        Set_name 42 ''env_env_smp'',
        Set_decoration 42 DecorationBinding 0, Set_decoration 42 DecorationDescriptorSet 9]"
proof -
  let ?argv = "[''ngf_shaderc'', ''two.hlsl'', ''-t'', ''gl430'']"
  let ?opts = "default_options\<lparr>targets := [snd (example_target_map ! 0)]\<rparr>"
  have a: "2 \<le> length ?argv" by simp
  have c: "snd (process_options (TARGET_MAP example_env) (drop 2 ?argv) default_options)
             = Inr ?opts"
    by (simp add: example_defs default_options_def)
  have b: "snd (main example_env ?argv) = 0"
    using main_exit_code[OF a c] example_two_gl430_completes by simp
  from combined_samplers_renamed_and_bound [OF a c refl refl] b
  have "filter is_combined_sampler_call (fst (main example_env ?argv))
          = over_targets
              (\<lambda>gpm ti. over_entry_points
                 (\<lambda>tech ep. expected_combined_sampler_calls example_env ti
                               (compile_entry_point example_env
                                  (read_file example_env (?argv ! 1) @ newline) (?argv ! 1)
                                  tech ep))
                 (parse_techniques example_env (read_file example_env (?argv ! 1) @ newline)))
              (sort_targets example_env (targets ?opts))"
    by blast
  then show ?thesis
    by (simp add: over_targets_def over_entry_points_def expected_combined_sampler_calls_def
        combined_sampler_calls_def example_defs sort_targets_def default_options_def
        newline_def compile_entry_point_def cross_compiler_kind_of_def upt_conv_Cons
        del: upt_Suc)
qed

text \<open>
  Claim C1 as the spec states it has one index run on through all the combined samplers
  of a technique. In the example the technique \<open>lit\<close> has two combined samplers in its
  vertex entry point and one in its fragment entry point: an index per technique would
  bind them to 0, 1 and 2, and the run binds them to 0, 1 and 0.
\<close>

theorem running_index_restarts_per_entry_point:
  "[(i, v). Set_decoration i DecorationBinding v
       \<leftarrow> fst (main example_env [''ngf_shaderc'', ''two.hlsl'', ''-t'', ''gl430''])]
     = [(22, 0), (12, 0), (33, 0), (34, 1), (42, 0)]"
  by (simp add: run_defs example_defs upt_conv_Cons del: upt_Suc)

subsection \<open>The translated-shader files\<close>





lemmas reading_defs = translated_instance_def layout_after_def fed_def prepared_instance_def
  new_layout_def layout_of_technique_def resource_kinds_in_order_def
  cross_compiler_kind_of_def compile_entry_point_def out_file_path_of_def Let_def
  sort_targets_def default_options_def newline_def over_targets_def over_entry_points_def

lemma example_in_spv_gl430_completes:
  "completes example_env ''in.hlsl''
     (default_options\<lparr>targets := [snd (example_target_map ! 11),
                                  snd (example_target_map ! 0)]\<rparr>)"
  by (simp add: completes_def openable_def example_defs sort_targets_def newline_def
      compile_entry_point_def out_file_path_of_def default_options_def)



subsection \<open>The \<^verbatim>\<open>.pipeline\<close> files and the header blocks\<close>

lemma write_pipeline_metadata_pipeline_file:
  "filter in_pipeline_file (write_pipeline_metadata env opts tech st)
     = pipeline_file env opts tech st"
  by (simp add: write_pipeline_metadata_def write_descriptor_set_def pipeline_file_def
      layout_record_def user_metadata_record_def Let_def filter_concat comp_def
      split: prod.splits)

lemma write_pipeline_metadata_header_block:
  "filter in_header_block (write_pipeline_metadata env opts tech st)
     = header_block env tech st"
  by (simp add: write_pipeline_metadata_def write_descriptor_set_def header_block_def
      Let_def filter_concat comp_def split: prod.splits)

lemma entry_points_events_no_metadata:
  "filter in_pipeline_file (entry_points_events env opts gpm ti tech g eps st) = []"
  "filter in_header_block (entry_points_events env opts gpm ti tech g eps st) = []"
  by (induction eps arbitrary: st)
    (simp_all add: entry_point_attempt_def Let_def
      bind_combined_image_samplers_filter[where b = False]
      expected_process_calls_filter[where b = False])

lemma technique_events_metadata:
  "filter in_pipeline_file (technique_events env opts gpm ti g tech)
     = (if gpm
        then pipeline_file env opts tech
               (layout_of_technique env gpm ti (g tech) (entry_points tech) (new_layout env))
        else [])"
  "filter in_header_block (technique_events env opts gpm ti g tech)
     = (if gpm
        then header_block env tech
               (layout_of_technique env gpm ti (g tech) (entry_points tech) (new_layout env))
        else [])"
  by (simp_all add: technique_events_def entry_points_events_no_metadata
      write_pipeline_metadata_pipeline_file write_pipeline_metadata_header_block)

lemma output_events_metadata:
  "filter in_pipeline_file (output_events env opts g techs (ti # rest))
     = concat (map (\<lambda>tech. pipeline_file env opts tech
                              (layout_of_technique env True ti (g tech) (entry_points tech)
                                 (new_layout env)))
                 techs)"
  "filter in_header_block (output_events env opts g techs (ti # rest))
     = concat (map (\<lambda>tech. header_block env tech
                              (layout_of_technique env True ti (g tech) (entry_points tech)
                                 (new_layout env)))
                 techs)"
  by (simp_all add: output_events_filter technique_events_metadata over_targets_def)

lemma begin_technique_in_header_block:
  "[n. Begin_technique n \<leftarrow> xs] = [n. Begin_technique n \<leftarrow> filter in_header_block xs]"
  by (induction xs) (auto split: event.splits)


text \<open>The target iterations after the first write nothing of the kind, however they end.\<close>

lemma later_iterations_no_metadata:
  assumes "spvs = concat (map (\<lambda>tech. map (g tech) (entry_points tech)) techs)"
  shows "filter in_pipeline_file (fst (targets_loop env opts techs spvs False tis)) = []"
    and "filter in_header_block (fst (targets_loop env opts techs spvs False tis)) = []"
proof -
  let ?all = "case tis of
                [] \<Rightarrow> []
              | ti # rest \<Rightarrow>
                  concat (map (technique_events env opts False ti g) techs)
                  @ concat (map (\<lambda>ti. concat (map (technique_events env opts False ti g) techs))
                              rest)"
  have none: "filter in_pipeline_file ?all = []" "filter in_header_block ?all = []"
    by (simp_all add: filter_concat comp_def technique_events_metadata split: list.splits)
  have "filter in_pipeline_file (fst (targets_loop env opts techs spvs False tis)) = []
        \<and> filter in_header_block (fst (targets_loop env opts techs spvs False tis)) = []"
  proof (cases "\<forall>ti \<in> set tis. openable env opts techs ti")
    case True
    from targets_loop_ok[OF True assms, of False] none show ?thesis by simp
  next
    case False
    from targets_loop_fail[OF False assms, of False] obtain xs m
      where l: "targets_loop env opts techs spvs False tis = (xs @ [Eprintf m], Inl 1)"
        and "prefix xs ?all"
      by blast
    from this(2) have "prefix (filter in_pipeline_file xs) (filter in_pipeline_file ?all)"
      and "prefix (filter in_header_block xs) (filter in_header_block ?all)"
      by (rule filter_mono_prefix)+
    with none l show ?thesis by simp
  qed
  then show "filter in_pipeline_file (fst (targets_loop env opts techs spvs False tis)) = []"
    and "filter in_header_block (fst (targets_loop env opts techs spvs False tis)) = []"
    by simp_all
qed

text \<open>
  Claim C2. Take a run with an accepted command line in which \<open>ti\<close> is the first target
  in processing order and \<open>rest\<close> are the others. What is written to \<^verbatim>\<open>.pipeline\<close> files is,
  for the techniques in order and once for each, the file \<^verbatim>\<open><out>/<technique>.pipeline\<close>
  with its four records, made from the layout and the maps that the entry points of the
  technique leave for the target \<open>ti\<close>; what is written to the header is one block for
  each technique, from the same layout. The iterations for the targets in \<open>rest\<close> write
  nothing to a \<^verbatim>\<open>.pipeline\<close> file or to the header, however many they are. A run that
  completes consists of the construction of the header writer, the first target iteration
  and the later ones, and all of the files and blocks are written in the first; a run that
  stops early has written the first of them.
\<close>

theorem pipeline_metadata_written_once:
  assumes "2 \<le> length argv"
    and "snd (process_options (TARGET_MAP env) (drop 2 argv) default_options) = Inr opts"
    and "src = read_file env (argv ! 1) @ newline"
    and "techs = parse_techniques env src"
    and "sort_targets env (targets opts) = ti # rest"
    and "pipeline_files
           = concat (map (\<lambda>tech. pipeline_file env opts tech
                                    (layout_of_technique env True ti
                                       (compile_entry_point env src (argv ! 1) tech)
                                       (entry_points tech) (new_layout env)))
                       techs)"
    and "header_blocks
           = concat (map (\<lambda>tech. header_block env tech
                                    (layout_of_technique env True ti
                                       (compile_entry_point env src (argv ! 1) tech)
                                       (entry_points tech) (new_layout env)))
                       techs)"
    and "spvs = concat (map (\<lambda>tech. map (compile_entry_point env src (argv ! 1) tech)
                                       (entry_points tech)) techs)"
    and "first = fst (techniques_loop env opts True ti spvs techs 0)"
    and "later = fst (targets_loop env opts techs spvs False rest)"
  shows "prefix (filter in_pipeline_file (fst (main env argv))) pipeline_files
         \<and> prefix (filter in_header_block (fst (main env argv))) header_blocks
         \<and> filter in_pipeline_file later = []
         \<and> filter in_header_block later = []
         \<and> (snd (main env argv) = 0
              \<longrightarrow> fst (main env argv)
                    = Header_file_writer (out_folder opts) (header_path opts)
                        (header_namespace opts)
                      # first @ later
                  \<and> filter in_pipeline_file first = pipeline_files
                  \<and> filter in_header_block first = header_blocks)"
proof -
  let ?g = "compile_entry_point env src (argv ! 1)"
  let ?hdr = "Header_file_writer (out_folder opts) (header_path opts) (header_namespace opts)"
  from main_filter[of argv env opts src in_pipeline_file, OF assms(1-3)]
  have p: "prefix (filter in_pipeline_file (fst (main env argv))) pipeline_files"
    by (simp add: assms(4-6) output_events_metadata)
  from main_filter[of argv env opts src in_header_block, OF assms(1-3)]
  have h: "prefix (filter in_header_block (fst (main env argv))) header_blocks"
    by (simp add: assms(4,5,7) output_events_metadata)
  have l: "filter in_pipeline_file later = []" "filter in_header_block later = []"
    unfolding assms(10) using assms(8) by (rule later_iterations_no_metadata)+
  have c: "fst (main env argv) = ?hdr # first @ later
           \<and> filter in_pipeline_file first = pipeline_files
           \<and> filter in_header_block first = header_blocks"
    if "snd (main env argv) = 0"
  proof -
    from that assms(1,2) have completed: "completes env (argv ! 1) opts"
      by (simp add: main_exit_code)
    from assms(1,2) have "main env argv = run env (argv ! 1) opts" by (rule main_accepted)
    with run_completes[OF completed assms(3)]
    have m: "fst (main env argv) = ?hdr # output_events env opts ?g techs (ti # rest)"
      by (simp add: assms(4,5))
    from completed
    have "\<forall>t \<in> set (sort_targets env (targets opts)). openable env opts techs t"
      unfolding completes_def assms(4) assms(3) by blast
    then have o: "\<forall>t \<in> set (ti # rest). openable env opts techs t"
      by (simp add: assms(5))
    then have "\<forall>tech \<in> set techs. \<forall>ep \<in> set (entry_points tech).
                 fopen_succeeds env (out_file_path_of env opts tech ep ti)"
      by (simp add: openable_def)
    moreover from assms(8)
    have "spvs = [] @ concat (map (\<lambda>tech. map (?g tech) (entry_points tech)) techs) @ []"
      by simp
    ultimately have "techniques_loop env opts True ti spvs techs 0
        = (concat (map (technique_events env opts True ti ?g) techs),
           Inr (0 + length (concat (map entry_points techs))))"
      by (rule techniques_loop_ok) simp
    then have f: "first = concat (map (technique_events env opts True ti ?g) techs)"
      by (simp add: assms(9))
    from o have "\<forall>t \<in> set rest. openable env opts techs t" by simp
    from targets_loop_ok[OF this assms(8), of False]
    have r: "later = concat (map (\<lambda>ti. concat (map (technique_events env opts False ti ?g)
                                                  techs)) rest)"
      by (cases rest) (simp_all add: assms(10))
    from m f r have "fst (main env argv) = ?hdr # first @ later"
      by (simp add: output_events_def over_targets_def)
    moreover from f have "filter in_pipeline_file first = pipeline_files"
      and "filter in_header_block first = header_blocks"
      by (simp_all add: filter_concat comp_def technique_events_metadata assms(6,7))
    ultimately show ?thesis by simp
  qed
  from p h l c show ?thesis by blast
qed

theorem pipeline_metadata_written_once_witness:
  "filter in_pipeline_file
     (fst (main example_env [''ngf_shaderc'', ''in.hlsl'', ''-t'', ''spv'', ''-t'', ''gl430'']))
     = [Pipeline_metadata_file ''./main.pipeline'',
        Start_new_record, Write_field 1, Write_field 6,
        Write_field 5, Write_type_field UNIFORM_BUFFER, Write_field 1,
        Write_field 21, Write_type_field SAMPLER, Write_field 1,
        Write_field 20, Write_type_field TEXTURE, Write_field 1,
        Write_field 5, Write_type_field UNIFORM_BUFFER, Write_field 2,
        Write_field 11, Write_type_field SAMPLER, Write_field 2,
        Write_field 10, Write_type_field TEXTURE, Write_field 2,
        Start_new_record, Write_field 2, Write_field 20, Write_field 1, Write_field 22,
        Write_field 10, Write_field 1, Write_field 12,
        Start_new_record, Write_field 2, Write_field 21, Write_field 1, Write_field 22,
        Write_field 11, Write_field 1, Write_field 12,
        Start_new_record, Write_field 1,
        Write_raw_bytes (''author'' @ [CHR 0x00]), Write_raw_bytes (''x'' @ [CHR 0x00]),
        Finalize]
   \<and> [n. Begin_technique n
          \<leftarrow> fst (main example_env
                    [''ngf_shaderc'', ''in.hlsl'', ''-t'', ''spv'', ''-t'', ''gl430''])]
       = [''main'']"
proof -
  let ?argv = "[''ngf_shaderc'', ''in.hlsl'', ''-t'', ''spv'', ''-t'', ''gl430'']"
  let ?gl = "snd (example_target_map ! 0)"
  let ?spv = "snd (example_target_map ! 11)"
  let ?opts = "default_options\<lparr>targets := [?spv, ?gl]\<rparr>"
  let ?src = "read_file example_env (?argv ! 1) @ newline"
  let ?layout = "\<lambda>tech. layout_of_technique example_env True ?gl
                          (compile_entry_point example_env ?src (?argv ! 1) tech)
                          (entry_points tech) (new_layout example_env)"
  have a: "2 \<le> length ?argv" by simp
  have c: "snd (process_options (TARGET_MAP example_env) (drop 2 ?argv) default_options)
             = Inr ?opts"
    by (simp add: example_defs default_options_def)
  have b: "snd (main example_env ?argv) = 0"
    using main_exit_code[OF a c] example_in_spv_gl430_completes by simp
  have d: "sort_targets example_env (targets ?opts) = ?gl # [?spv]"
    by (simp add: sort_targets_def example_defs)
  from pipeline_metadata_written_once [OF a c refl refl d refl refl refl refl refl] b
  have files: "filter in_pipeline_file (fst (main example_env ?argv))
          = concat (map (\<lambda>tech. pipeline_file example_env ?opts tech (?layout tech))
                      (parse_techniques example_env ?src))"
    and blocks: "filter in_header_block (fst (main example_env ?argv))
          = concat (map (\<lambda>tech. header_block example_env tech (?layout tech))
                      (parse_techniques example_env ?src))"
    by simp_all
  have "[n. Begin_technique n \<leftarrow> fst (main example_env ?argv)]
          = [n. Begin_technique n \<leftarrow> filter in_header_block (fst (main example_env ?argv))]"
    by (rule begin_technique_in_header_block)
  also have "\<dots> = [''main'']"
    unfolding blocks by (simp add: header_block_def example_defs newline_def)
  finally have names: "[n. Begin_technique n \<leftarrow> fst (main example_env ?argv)] = [''main'']" .
  from files have "filter in_pipeline_file (fst (main example_env ?argv))
     = [Pipeline_metadata_file ''./main.pipeline'',
        Start_new_record, Write_field 1, Write_field 6,
        Write_field 5, Write_type_field UNIFORM_BUFFER, Write_field 1,
        Write_field 21, Write_type_field SAMPLER, Write_field 1,
        Write_field 20, Write_type_field TEXTURE, Write_field 1,
        Write_field 5, Write_type_field UNIFORM_BUFFER, Write_field 2,
        Write_field 11, Write_type_field SAMPLER, Write_field 2,
        Write_field 10, Write_type_field TEXTURE, Write_field 2,
        Start_new_record, Write_field 2, Write_field 20, Write_field 1, Write_field 22,
        Write_field 10, Write_field 1, Write_field 12,
        Start_new_record, Write_field 2, Write_field 21, Write_field 1, Write_field 22,
        Write_field 11, Write_field 1, Write_field 12,
        Start_new_record, Write_field 1,
        Write_raw_bytes (''author'' @ [CHR 0x00]), Write_raw_bytes (''x'' @ [CHR 0x00]),
        Finalize]"
    by (simp add: pipeline_file_def layout_record_def user_metadata_record_def
        reading_defs example_defs upt_conv_Cons del: upt_Suc)
  with names show ?thesis by simp
qed

section \<open>The text that is parsed\<close>






section \<open>The order of the targets\<close>




























text \<open>
  With the insertion sort of the example, targets of one api are processed in the order
  of the command line: the files are the same, the order in which they are written is
  not.
\<close>

lemma example_same_api_targets_in_command_line_order:
  "[p. Fopen p \<leftarrow> fst (main example_env
        [''ngf_shaderc'', ''in.hlsl'', ''-t'', ''gl430'', ''-t'', ''gles310''])]
     = [''./main.vs.430.glsl'', ''./main.ps.430.glsl'',
        ''./main.vs.310es.glsl'', ''./main.ps.310es.glsl'']
   \<and> [p. Fopen p \<leftarrow> fst (main example_env
        [''ngf_shaderc'', ''in.hlsl'', ''-t'', ''gles310'', ''-t'', ''gl430''])]
     = [''./main.vs.310es.glsl'', ''./main.ps.310es.glsl'',
        ''./main.vs.430.glsl'', ''./main.ps.430.glsl'']"
  by (simp add: run_defs example_defs)
end
